theory Spec2Isabelle
  imports Complex_Main
begin

section \<open>Python text\<close>

text \<open>
  A Python \<open>str\<close> is a sequence of Unicode code points; it is modelled as the list of
  those code points. \<open>asc\<close> embeds a literal written with Isabelle characters.
\<close>

type_synonym str = "nat list"

definition asc :: "string \<Rightarrow> str" where
  "asc s = map of_char s"

text \<open>\<open>startswith s p\<close> is \<open>s.startswith(p)\<close>, \<open>endswith s p\<close> is \<open>s.endswith(p)\<close>.\<close>

definition startswith :: "str \<Rightarrow> str \<Rightarrow> bool" where
  "startswith s p = (take (length p) s = p)"

definition endswith :: "str \<Rightarrow> str \<Rightarrow> bool" where
  "endswith s p = (length p \<le> length s \<and> drop (length s - length p) s = p)"

text \<open>\<open>str_in sub s\<close> is the substring test \<open>sub in s\<close>.\<close>

fun str_in :: "str \<Rightarrow> str \<Rightarrow> bool" where
  "str_in sub [] = (sub = [])"
| "str_in sub (c # cs) = (startswith (c # cs) sub \<or> str_in sub cs)"

text \<open>
  \<open>replace old new s\<close> is \<open>s.replace(old, new)\<close>: every non-overlapping occurrence of
  \<open>old\<close>, scanning from the left. With an empty \<open>old\<close> Python puts \<open>new\<close> before every
  character and at the end.
\<close>

function replace :: "str \<Rightarrow> str \<Rightarrow> str \<Rightarrow> str" where
  "replace old new [] = (if old = [] then new else [])"
| "replace old new (c # cs) =
     (if old = [] then new @ c # replace old new cs
      else if startswith (c # cs) old then new @ replace old new (drop (length old) (c # cs))
      else c # replace old new cs)"
  by pat_completeness auto
termination
  by (relation "measure (\<lambda>(old, new, s). length s)") auto

text \<open>
  The characters \<open>str.strip()\<close> removes: the code points for which CPython's
  \<open>str.isspace\<close> holds.
\<close>

definition isspace :: "nat \<Rightarrow> bool" where
  "isspace c =
     ((0x09 \<le> c \<and> c \<le> 0x0D) \<or> (0x1C \<le> c \<and> c \<le> 0x20) \<or> c = 0x85 \<or> c = 0xA0
      \<or> c = 0x1680 \<or> (0x2000 \<le> c \<and> c \<le> 0x200A) \<or> c = 0x2028 \<or> c = 0x2029
      \<or> c = 0x202F \<or> c = 0x205F \<or> c = 0x3000)"

text \<open>\<open>strip_chars P s\<close> drops the characters satisfying \<open>P\<close> from both ends of \<open>s\<close>.\<close>

definition strip_chars :: "(nat \<Rightarrow> bool) \<Rightarrow> str \<Rightarrow> str" where
  "strip_chars P s = rev (dropWhile P (rev (dropWhile P s)))"

definition strip :: "str \<Rightarrow> str" where
  "strip s = strip_chars isspace s"

section \<open>Library functions the code calls\<close>

text \<open>
  Values of Python's \<open>float\<close>: \<open>Nearest q\<close> stands for the IEEE double nearest to the
  rational \<open>q\<close>.
\<close>

datatype pyfloat = Nearest rat | PosInf | NegInf | NaN

text \<open>
  The values \<open>json.loads\<close> returns, which are also the values an answer can take:
  \<open>None\<close>, \<open>bool\<close>, \<open>int\<close>, \<open>float\<close>, \<open>str\<close>, \<open>list\<close> and \<open>dict\<close> (in insertion
  order).
\<close>

datatype json =
    JNull
  | JBool bool
  | JInt int
  | JFloat pyfloat
  | JStr str
  | JArr "json list"
  | JObj "(str \<times> json) list"

text \<open>
  Exceptions, each with the text \<open>str(e)\<close> gives. \<open>Raised\<close> is an exception of any
  other class that a library or an I/O call raises.
\<close>

datatype error =
    RuntimeError str
  | TypeError str
  | AttributeError str
  | Raised str

fun error_str :: "error \<Rightarrow> str" where
  "error_str (RuntimeError m) = m"
| "error_str (TypeError m) = m"
| "error_str (AttributeError m) = m"
| "error_str (Raised m) = m"

text \<open>
  The functions of Python's standard library, of \<open>urllib\<close> and of \<open>json\<close> that the code
  calls and that are not part of the repository are parameters of the model. A function
  that raises returns \<open>None\<close>, or the exception where the code lets it pass.
  \<^item> \<open>lower_ext\<close>: \<open>str.lower\<close> on text with a code point outside ASCII;
  \<^item> \<open>printable_ext\<close>: \<open>str.isprintable\<close> on a code point outside ASCII;
  \<^item> \<open>int_ext\<close>, \<open>float_ext\<close>: \<open>int(s)\<close> and \<open>float(s)\<close> outside the plain decimal
    syntax that \<open>py_int\<close> and \<open>py_float\<close> below compute;
  \<^item> \<open>json_loads\<close>, \<open>json_dumps\<close>: \<open>json.loads\<close> and \<open>json.dumps\<close>;
  \<^item> \<open>py_str\<close>: \<open>str(v)\<close> of a value that is not a string;
  \<^item> \<open>urljoin\<close>: \<open>urllib.parse.urljoin\<close>, on the pairs for which it returns (on a link
    with a malformed bracketed host it raises \<open>ValueError\<close>, \<open>_parse_question\<close> lets
    that pass and no question record results);
  \<^item> \<open>urlparse\<close>: the \<open>scheme\<close> and \<open>netloc\<close> fields of \<open>urllib.parse.urlparse(v)\<close>, or
    the exception it raises.
\<close>

record pylib =
  lower_ext :: "str \<Rightarrow> str"
  printable_ext :: "nat \<Rightarrow> bool"
  int_ext :: "str \<Rightarrow> int option"
  float_ext :: "str \<Rightarrow> pyfloat option"
  json_loads :: "str \<Rightarrow> json option"
  json_dumps :: "json \<Rightarrow> str"
  py_str :: "json \<Rightarrow> str"
  urljoin :: "str \<Rightarrow> str \<Rightarrow> str"
  urlparse :: "json \<Rightarrow> error + (str \<times> str)"

text \<open>\<open>lower L s\<close> is \<open>s.lower()\<close>: on ASCII text it maps \<open>A\<close>..\<open>Z\<close> to \<open>a\<close>..\<open>z\<close>.\<close>

definition ascii_lower :: "nat \<Rightarrow> nat" where
  "ascii_lower c = (if 65 \<le> c \<and> c \<le> 90 then c + 32 else c)"

definition lower :: "pylib \<Rightarrow> str \<Rightarrow> str" where
  "lower L s = (if list_all (\<lambda>c. c < 128) s then map ascii_lower s else lower_ext L s)"

text \<open>
  Truthiness of an optional string, as \<open>if submit_url\<close> and \<open>if not submit_url\<close> test
  it: \<open>None\<close> and the empty string are false.
\<close>

fun truthy :: "str option \<Rightarrow> bool" where
  "truthy None = False"
| "truthy (Some s) = (s \<noteq> [])"

section \<open>Answer Submitter: the submission URL\<close>

text \<open>
  \<open>re.sub(r'/quiz[-/]', '/submit-', quiz_url)\<close>: every occurrence of \<open>/quiz-\<close> or
  \<open>/quiz/\<close>, scanning from the left, becomes \<open>/submit-\<close>.
\<close>

function re_sub_quiz :: "str \<Rightarrow> str" where
  "re_sub_quiz [] = []"
| "re_sub_quiz (c # cs) =
     (if startswith (c # cs) (asc ''/quiz-'') \<or> startswith (c # cs) (asc ''/quiz/'')
      then asc ''/submit-'' @ re_sub_quiz (drop 6 (c # cs))
      else c # re_sub_quiz cs)"
  by pat_completeness auto
termination
  by (relation "measure length") auto

text \<open>
  The URL \<open>_submit_answer\<close> posts to (quiz\_solver.py, lines 565 to 573). Its first
  statement assigns the fixed endpoint to \<open>submit_url\<close>, whatever the caller passed; the
  test \<open>if not submit_url\<close> and the two derivations under it follow.
\<close>

definition submit_answer_url :: "pylib \<Rightarrow> str \<Rightarrow> str option \<Rightarrow> error + str" where
  "submit_answer_url L quiz_url submit_url_arg =
     (let submit_url = Some (asc ''https://tds-llm-analysis.s-anand.net/submit'') in
      case (if truthy submit_url then submit_url else None) of
        Some s \<Rightarrow> Inr s
      | None \<Rightarrow>
          (if str_in (asc ''/quiz-'') quiz_url \<or> str_in (asc ''/quiz/'') quiz_url
           then Inr (re_sub_quiz quiz_url)
           else (case urlparse L (JStr quiz_url) of
                   Inl e \<Rightarrow> Inl e
                 | Inr (scheme, netloc) \<Rightarrow> Inr (scheme @ asc ''://'' @ netloc @ asc ''/submit''))))"

text \<open>
  The \<open>submit_url\<close> field of the question record (\<open>_parse_question\<close>, lines 298 to 311).
  \<open>submit_match\<close> is group 1 of the \<open>re.search\<close> for the "POST ... to URL" pattern over the
  page text (\<open>None\<close> when there is no match) and \<open>all_urls\<close> is what \<open>re.findall\<close> returns
  for the URL pattern. A match is replaced by the fixed endpoint on the next line.
\<close>

definition parse_question_submit_url :: "pylib \<Rightarrow> str option \<Rightarrow> str list \<Rightarrow> str option" where
  "parse_question_submit_url L submit_match all_urls =
     (let submit_url =
            (case submit_match of
               None \<Rightarrow> None
             | Some g \<Rightarrow> Some (asc ''https://tds-llm-analysis.s-anand.net/submit''))
      in if \<not> truthy submit_url
         then find (\<lambda>url. str_in (asc ''submit'') (lower L url)
                          \<or> str_in (asc ''/answer'') (lower L url)) all_urls
         else submit_url)"

section \<open>Solution Planner: salvaging the model's response\<close>

text \<open>\<open>str.isprintable\<close> of one character: in ASCII, the codes 32 to 126.\<close>

definition isprintable :: "pylib \<Rightarrow> nat \<Rightarrow> bool" where
  "isprintable L c = (if c < 128 then 32 \<le> c \<and> c < 127 else printable_ext L c)"

text \<open>
  The match of \<open>re.search(r'\{.*\}', text, re.DOTALL)\<close>: from the first \<open>{\<close> to the
  last \<open>}\<close> after it, \<open>None\<close> when there is no such pair.
\<close>

definition brace_match :: "str \<Rightarrow> str option" where
  "brace_match text =
     (let from_open = dropWhile (\<lambda>c. c \<noteq> 123) text;
          m = rev (dropWhile (\<lambda>c. c \<noteq> 125) (rev from_open))
      in if m = [] then None else Some m)"

text \<open>
  The text \<open>_parse_json_response\<close> decodes at its third try (llm\_handler.py, lines 405
  to 415). The code points 8220, 8221 and 8217 are the left and right double quotation
  marks and the right single quotation mark; 92 is the backslash, 34 and 39 the ASCII
  quotes, 96 the backtick.
\<close>

definition salvage_clean :: "pylib \<Rightarrow> str \<Rightarrow> str" where
  "salvage_clean L text =
     (let cleaned = strip (replace (asc ''```'') [] (replace (asc ''```json'') [] text));
          cleaned = replace [9] (asc '' '') (replace [10] (asc '' '') cleaned);
          cleaned = replace [8217] [39] (replace [8221] [34] (replace [8220] [34] cleaned));
          cleaned = replace [92, 34] [34] (replace [92, 39] [39] cleaned);
          cleaned = filter (isprintable L) cleaned
      in replace (asc ''``````'') [] cleaned)"

text \<open>The dictionary \<open>_parse_json_response\<close> returns when no decode succeeds.\<close>

definition degraded_plan :: "str \<Rightarrow> json" where
  "degraded_plan text =
     JObj [(asc ''analysis'', JStr (asc ''Failed to parse JSON. Raw response: '' @ take 200 text)),
           (asc ''data_needed'', JArr []),
           (asc ''steps'', JArr [JStr (asc ''Manual parsing required'')]),
           (asc ''answer_type'', JStr (asc ''string'')),
           (asc ''solution'', JStr text)]"

text \<open>
  \<open>_parse_json_response\<close> (lines 389 to 427): every \<open>json.loads\<close> stands in a
  \<open>try\<close> whose bare \<open>except\<close> passes on to the next try.
\<close>

definition parse_json_response :: "pylib \<Rightarrow> str \<Rightarrow> json" where
  "parse_json_response L text =
     (case json_loads L text of
        Some j \<Rightarrow> j
      | None \<Rightarrow>
          (case (case brace_match text of None \<Rightarrow> None | Some m \<Rightarrow> json_loads L m) of
             Some j \<Rightarrow> j
           | None \<Rightarrow>
               (case json_loads L (salvage_clean L text) of
                  Some j \<Rightarrow> j
                | None \<Rightarrow> degraded_plan text)))"

text \<open>
  What \<open>_process_llm_response\<close> does to the response before it calls
  \<open>_parse_json_response\<close> (lines 371 to 376): \<open>strip()\<close>, and for a text that then
  starts with three backticks, \<open>strip("`")\<close> and, when a newline is left,
  \<open>split("\n", 1)[1]\<close>, the text after the first newline.
\<close>

definition preclean :: "str \<Rightarrow> str" where
  "preclean llm_response =
     (let cleaned = strip llm_response in
      if startswith cleaned (asc ''```'')
      then (let cleaned = strip_chars (\<lambda>c. c = 96) cleaned in
            if 10 \<in> set cleaned then drop 1 (dropWhile (\<lambda>c. c \<noteq> 10) cleaned) else cleaned)
      else cleaned)"

text \<open>
  \<open>_process_llm_response\<close> (lines 367 to 387). On a string nothing in its \<open>try\<close>
  raises: \<open>_parse_json_response\<close> catches every exception of its own, so the \<open>except\<close>
  branch of this function is not a branch of the model.
\<close>

definition process_llm_response :: "pylib \<Rightarrow> str \<Rightarrow> json" where
  "process_llm_response L llm_response = parse_json_response L (preclean llm_response)"

text \<open>The entry of a plan under a key, \<open>None\<close> for a missing key or a plan that is no dictionary.\<close>

definition plan_field :: "json \<Rightarrow> str \<Rightarrow> json option" where
  "plan_field j k = (case j of JObj d \<Rightarrow> map_of d k | _ \<Rightarrow> None)"

section \<open>Sandboxed Executor and answer coercion\<close>

text \<open>
  \<open>int(s)\<close> and \<open>float(s)\<close>. The model computes the plain decimal syntax: surrounding
  white space, an optional sign, ASCII digits (at most 4300, the limit of recent
  CPython versions), and for \<open>float\<close> one decimal point among at most 300 digits. Every
  other string is left to the library table.
\<close>

definition is_digit :: "nat \<Rightarrow> bool" where
  "is_digit c = (48 \<le> c \<and> c \<le> 57)"

definition digits_value :: "str \<Rightarrow> nat" where
  "digits_value ds = foldl (\<lambda>a c. 10 * a + (c - 48)) 0 ds"

definition split_sign :: "str \<Rightarrow> bool \<times> str" where
  "split_sign t =
     (case t of
        [] \<Rightarrow> (False, [])
      | c # r \<Rightarrow> if c = 45 then (True, r) else if c = 43 then (False, r) else (False, t))"

definition py_int :: "pylib \<Rightarrow> str \<Rightarrow> int option" where
  "py_int L s =
     (let (neg, ds) = split_sign (strip s) in
      if ds \<noteq> [] \<and> list_all is_digit ds \<and> length ds \<le> 4300
      then Some (if neg then - int (digits_value ds) else int (digits_value ds))
      else int_ext L s)"

definition py_float :: "pylib \<Rightarrow> str \<Rightarrow> pyfloat option" where
  "py_float L s =
     (let (neg, body) = split_sign (strip s);
          ip = takeWhile (\<lambda>c. c \<noteq> 46) body;
          fp = drop 1 (dropWhile (\<lambda>c. c \<noteq> 46) body);
          q = of_nat (digits_value (ip @ fp)) / (10 ^ length fp) :: rat
      in if 46 \<in> set body \<and> ip @ fp \<noteq> [] \<and> list_all is_digit (ip @ fp)
            \<and> length (ip @ fp) \<le> 300 \<and> \<not> (neg \<and> q = 0)
         then Some (Nearest (if neg then - q else q))
         else float_ext L s)"

text \<open>
  What writing the script to a temporary file and \<open>subprocess.run\<close> on it give
  (\<open>_execute_python_solution\<close>, lines 489 to 502): a completed process with its return
  code, standard output and standard error, or an exception (\<open>TimeoutExpired\<close> after 30
  seconds, an operating system error).
\<close>

datatype proc_outcome = Completed int str str | RunRaised error

text \<open>\<open>type(v).__name__\<close>.\<close>

fun type_name :: "json \<Rightarrow> str" where
  "type_name JNull = asc ''NoneType''"
| "type_name (JBool b) = asc ''bool''"
| "type_name (JInt i) = asc ''int''"
| "type_name (JFloat f) = asc ''float''"
| "type_name (JStr s) = asc ''str''"
| "type_name (JArr xs) = asc ''list''"
| "type_name (JObj d) = asc ''dict''"

text \<open>\<open>bool(v)\<close>.\<close>

fun py_bool :: "json \<Rightarrow> bool" where
  "py_bool JNull = False"
| "py_bool (JBool b) = b"
| "py_bool (JInt i) = (i \<noteq> 0)"
| "py_bool (JFloat f) = (f \<noteq> Nearest 0)"
| "py_bool (JStr s) = (s \<noteq> [])"
| "py_bool (JArr xs) = (xs \<noteq> [])"
| "py_bool (JObj d) = (d \<noteq> [])"

text \<open>\<open>d.get(k, default)\<close> on the items of a dictionary.\<close>

definition dict_get :: "(str \<times> json) list \<Rightarrow> str \<Rightarrow> json \<Rightarrow> json" where
  "dict_get d k dflt = (case map_of d k of None \<Rightarrow> dflt | Some v \<Rightarrow> v)"

definition no_get :: "json \<Rightarrow> error" where
  "no_get v =
     AttributeError ([39] @ type_name v @ [39] @ asc '' object has no attribute '' @ [39] @ asc ''get'' @ [39])"

text \<open>
  The base URL \<open>_execute_python_solution\<close> computes from its context (lines 479 to 484):
  \<open>context.get('quiz_url', '')\<close> for a context that is true, parsed when it is true in
  turn, and a fixed URL otherwise. The base URL is only printed, but the two calls can
  raise.
\<close>

definition base_url_of :: "pylib \<Rightarrow> json \<Rightarrow> error + str" where
  "base_url_of L context =
     (case (if py_bool context
            then (case context of
                    JObj d \<Rightarrow> Inr (dict_get d (asc ''quiz_url'') (JStr []))
                  | _ \<Rightarrow> Inl (no_get context))
            else Inr (JStr [])) of
        Inl e \<Rightarrow> Inl e
      | Inr quiz_url \<Rightarrow>
          if py_bool quiz_url
          then (case urlparse L quiz_url of
                  Inl e \<Rightarrow> Inl e
                | Inr (scheme, netloc) \<Rightarrow> Inr (scheme @ asc ''://'' @ netloc))
          else Inr (asc ''https://tds-llm-analysis.s-anand.net''))"

text \<open>
  \<open>_execute_python_solution\<close> (lines 466 to 520). \<open>run\<close> is the outcome of running the
  given script. Writing a value that is not a string to the file raises \<open>TypeError\<close>.
  The removal of the temporary file in the \<open>finally\<close> block changes no result.
\<close>

definition execute_python_solution ::
  "pylib \<Rightarrow> (str \<Rightarrow> proc_outcome) \<Rightarrow> json \<Rightarrow> json \<Rightarrow> error + json" where
  "execute_python_solution L run solution_code context =
     (case base_url_of L context of
        Inl e \<Rightarrow> Inl e
      | Inr base_url \<Rightarrow>
          (case solution_code of
             JStr code \<Rightarrow>
               (case run code of
                  Completed returncode out err \<Rightarrow>
                    if returncode \<noteq> 0
                    then Inl (RuntimeError (asc ''Subprocess execution failed: ''
                                             @ (if err \<noteq> [] then err else out)))
                    else Inr (JStr (strip out))
                | RunRaised e \<Rightarrow> Inl e)
           | _ \<Rightarrow> Inl (TypeError (asc ''write() argument must be str, not ''
                                   @ type_name solution_code))))"

text \<open>
  \<open>keyword in v\<close>: a substring test on a string, membership in a list, key membership in
  a dictionary, and \<open>TypeError\<close> on \<open>None\<close>, a Boolean or a number.
\<close>

definition not_iterable :: "json \<Rightarrow> error" where
  "not_iterable v =
     TypeError (asc ''argument of type '' @ [39] @ type_name v @ [39] @ asc '' is not iterable'')"

fun py_contains :: "str \<Rightarrow> json \<Rightarrow> error + bool" where
  "py_contains k (JStr s) = Inr (str_in k s)"
| "py_contains k (JArr xs) = Inr (JStr k \<in> set xs)"
| "py_contains k (JObj d) = Inr (k \<in> set (map fst d))"
| "py_contains k v = Inl (not_iterable v)"

text \<open>\<open>any(keyword in v for keyword in ks)\<close>: it stops at the first hit or exception.\<close>

fun any_keyword_in :: "str list \<Rightarrow> json \<Rightarrow> error + bool" where
  "any_keyword_in [] v = Inr False"
| "any_keyword_in (k # ks) v =
     (case py_contains k v of
        Inl e \<Rightarrow> Inl e
      | Inr hit \<Rightarrow> if hit then Inr True else any_keyword_in ks v)"

definition code_keywords :: "str list" where
  "code_keywords = [asc ''import'', asc ''def '', asc ''for '', asc ''while '', asc ''='']"

text \<open>\<open>str(v)\<close>.\<close>

definition to_str :: "pylib \<Rightarrow> json \<Rightarrow> str" where
  "to_str L v = (case v of JStr s \<Rightarrow> s | _ \<Rightarrow> py_str L v)"

text \<open>
  The coercion of a literal answer (\<open>execute_solution\<close>, lines 442 to 464). In the
  \<open>number\<close> and \<open>object\<close> branches an exception of the conversion is caught and the
  answer is returned as it is.
\<close>

definition coerce_answer :: "pylib \<Rightarrow> json \<Rightarrow> json \<Rightarrow> json" where
  "coerce_answer L answer_type answer =
     (if answer_type = JStr (asc ''number'') then
        (let answer_str = strip (replace (asc '','') [] (to_str L answer)) in
         if str_in (asc ''.'') answer_str
         then (case py_float L answer_str of Some f \<Rightarrow> JFloat f | None \<Rightarrow> answer)
         else (case py_int L answer_str of Some i \<Rightarrow> JInt i | None \<Rightarrow> answer))
      else if answer_type = JStr (asc ''boolean'') then
        (case answer of
           JStr s \<Rightarrow> JBool (lower L s \<in> set [asc ''true'', asc ''yes'', asc ''1''])
         | _ \<Rightarrow> JBool (py_bool answer))
      else if answer_type = JStr (asc ''object'') then
        (case answer of
           JStr s \<Rightarrow> (case json_loads L s of Some j \<Rightarrow> j | None \<Rightarrow> answer)
         | _ \<Rightarrow> answer)
      else answer)"

text \<open>
  \<open>execute_solution\<close> (lines 429 to 464). The plan is what \<open>json.loads\<close> returned; a
  plan that is not a dictionary has no \<open>get\<close>.
\<close>

definition execute_solution :: "pylib \<Rightarrow> (str \<Rightarrow> proc_outcome) \<Rightarrow> json \<Rightarrow> json \<Rightarrow> error + json" where
  "execute_solution L run solution context =
     (case solution of
        JObj d \<Rightarrow>
          (let answer_type = dict_get d (asc ''answer_type'') (JStr (asc ''string''));
               solution_code = dict_get d (asc ''solution_code'') (JStr [])
           in case any_keyword_in code_keywords solution_code of
                Inl e \<Rightarrow> Inl e
              | Inr is_code \<Rightarrow>
                  if is_code then execute_python_solution L run solution_code context
                  else Inr (coerce_answer L answer_type solution_code))
      | _ \<Rightarrow> Inl (no_get solution))"

section \<open>Content Extractor: resource links\<close>

text \<open>
  The tree BeautifulSoup builds from the page: a tag with its name, its attributes and
  its children, or a piece of text. The soup itself is the tag at the top, named
  \<open>[document]\<close>. Parsing the HTML text into this tree is BeautifulSoup's work and not
  part of the model.
\<close>

datatype node = Tag str "(str \<times> str) list" "node list" | NavigableString str

text \<open>The tags and texts below a tag, in document order.\<close>

fun descendants :: "node \<Rightarrow> node list" where
  "descendants (NavigableString s) = []"
| "descendants (Tag name attrs children) = concat (map (\<lambda>c. c # descendants c) children)"

fun is_tag :: "str \<Rightarrow> node \<Rightarrow> bool" where
  "is_tag name (Tag n attrs children) = (n = name)"
| "is_tag name (NavigableString s) = False"

text \<open>\<open>tag.find_all(name)\<close>: the tags of that name below \<open>tag\<close>, in document order.\<close>

definition find_all :: "str \<Rightarrow> node \<Rightarrow> node list" where
  "find_all name tag = filter (is_tag name) (descendants tag)"

text \<open>\<open>tag.get(k)\<close>, and the same when the value is tested for truth: a missing and an
  empty attribute both fail \<open>if tag.get('src')\<close>.\<close>

fun get_attr :: "node \<Rightarrow> str \<Rightarrow> str option" where
  "get_attr (Tag n attrs children) k = map_of attrs k"
| "get_attr (NavigableString s) k = None"

text \<open>
  \<open>for script in soup(["script", "style"]): script.decompose()\<close>: every tag with one of
  the names leaves the tree, with all below it.
\<close>

fun decompose_all :: "str list \<Rightarrow> node \<Rightarrow> node" where
  "decompose_all names (NavigableString s) = NavigableString s"
| "decompose_all names (Tag name attrs children) =
     Tag name attrs (map (decompose_all names) (filter (\<lambda>c. \<not> list_ex (\<lambda>n. is_tag n c) names) children))"

definition get_truthy :: "node \<Rightarrow> str \<Rightarrow> str option" where
  "get_truthy tag k = (case get_attr tag k of None \<Rightarrow> None | Some v \<Rightarrow> if v = [] then None else Some v)"

text \<open>
  The lines every loop of \<open>_parse_question\<close> applies to a link: a link that does not
  start with \<open>http://\<close> or \<open>https://\<close> is joined to the base URL.
\<close>

definition resolve :: "pylib \<Rightarrow> str \<Rightarrow> str \<Rightarrow> str" where
  "resolve L base_url src =
     (if startswith src (asc ''http://'') \<or> startswith src (asc ''https://'') then src
      else urljoin L base_url src)"

text \<open>\<open>if url not in file_urls: file_urls.append(url)\<close>.\<close>

definition append_new :: "str \<Rightarrow> str list \<Rightarrow> str list" where
  "append_new url file_urls = (if url \<in> set file_urls then file_urls else file_urls @ [url])"

definition audio_extensions :: "str list" where
  "audio_extensions = [asc ''.opus'', asc ''.mp3'', asc ''.wav'', asc ''.m4a'', asc ''.ogg'', asc ''.flac'']"

definition file_extensions :: "str list" where
  "file_extensions = [asc ''.pdf'', asc ''.csv'', asc ''.xlsx'', asc ''.json'', asc ''.txt'', asc ''.png'',
                      asc ''.jpg'', asc ''.jpeg'']"

definition all_extensions :: "str list" where
  "all_extensions = audio_extensions @ file_extensions"

text \<open>
  One pass of each loop of \<open>_parse_question\<close> (quiz\_solver.py, lines 243 to 288), from
  the list \<open>file_urls\<close> before the pass to the list after it: the \<open>source\<close> tags inside
  an \<open>audio\<close> tag, the \<open>audio\<close> tags (whose own \<open>src\<close> is appended without the test
  for a duplicate), the \<open>a\<close> tags that have an \<open>href\<close>, and the \<open>video\<close> tags.
\<close>

definition source_step :: "pylib \<Rightarrow> str \<Rightarrow> str list \<Rightarrow> node \<Rightarrow> str list" where
  "source_step L base_url file_urls source_tag =
     (case get_truthy source_tag (asc ''src'') of
        None \<Rightarrow> file_urls
      | Some src \<Rightarrow> append_new (resolve L base_url src) file_urls)"

definition audio_step :: "pylib \<Rightarrow> str \<Rightarrow> str list \<Rightarrow> node \<Rightarrow> str list" where
  "audio_step L base_url file_urls audio_tag =
     foldl (source_step L base_url)
       (case get_truthy audio_tag (asc ''src'') of
          None \<Rightarrow> file_urls
        | Some src \<Rightarrow> file_urls @ [resolve L base_url src])
       (find_all (asc ''source'') audio_tag)"

text \<open>\<open>any(ext in href.lower() for ext in all_extensions)\<close>.\<close>

definition has_extension :: "pylib \<Rightarrow> str \<Rightarrow> bool" where
  "has_extension L href = list_ex (\<lambda>ext. str_in ext (lower L href)) all_extensions"

definition link_step :: "pylib \<Rightarrow> str \<Rightarrow> str list \<Rightarrow> node \<Rightarrow> str list" where
  "link_step L base_url file_urls link =
     (case get_attr link (asc ''href'') of
        None \<Rightarrow> file_urls
      | Some href0 \<Rightarrow>
          (let href = resolve L base_url href0 in
           if has_extension L href
           then append_new href file_urls else file_urls))"

definition video_step :: "pylib \<Rightarrow> str \<Rightarrow> str list \<Rightarrow> node \<Rightarrow> str list" where
  "video_step L base_url file_urls video_tag =
     (case get_truthy video_tag (asc ''src'') of
        None \<Rightarrow> file_urls
      | Some src \<Rightarrow> append_new (resolve L base_url src) file_urls)"

text \<open>\<open>file_urls\<close> after the three loops, before the duplicates are removed.\<close>

definition discovered_urls :: "pylib \<Rightarrow> node \<Rightarrow> str \<Rightarrow> str list" where
  "discovered_urls L soup base_url =
     (let soup = decompose_all [asc ''script'', asc ''style''] soup;
          file_urls = foldl (audio_step L base_url) [] (find_all (asc ''audio'') soup);
          file_urls = foldl (link_step L base_url) file_urls (find_all (asc ''a'') soup)
      in foldl (video_step L base_url) file_urls (find_all (asc ''video'') soup))"

text \<open>The last loop (lines 291 to 294), and the \<open>file_urls\<close> entry of the question record.\<close>

definition unique_urls :: "str list \<Rightarrow> str list" where
  "unique_urls file_urls = foldl (\<lambda>unique_file_urls url. append_new url unique_file_urls) [] file_urls"

definition parse_question_file_urls :: "pylib \<Rightarrow> node \<Rightarrow> str \<Rightarrow> str list" where
  "parse_question_file_urls L soup base_url = unique_urls (discovered_urls L soup base_url)"



section \<open>Resource Ingestion Pipeline\<close>

text \<open>A \<open>bytes\<close> value is the list of its bytes.\<close>

type_synonym bytes = "nat list"

text \<open>The decimal digits of a number, as an f-string prints a status code.\<close>

fun str_of_nat :: "nat \<Rightarrow> str" where
  "str_of_nat n = (if n < 10 then [48 + n] else str_of_nat (n div 10) @ [48 + n mod 10])"

declare str_of_nat.simps [simp del]

text \<open>
  What one \<open>await self.http_client.get(url, timeout=30.0)\<close> gives: a response with its
  status code, its \<open>content-type\<close> header (empty when it has none) and its body, an
  \<open>asyncio.TimeoutError\<close>, or any other exception with its text.
\<close>

datatype get_outcome = Response nat str bytes | GetTimeout | GetRaised str

text \<open>
  The entries of \<open>files\<close>. \<open>Csv\<close> carries what pandas read (the column names and the
  records), \<open>Pdf\<close> the page count and the pages as pairs of page number and text,
  \<open>Binary\<close> the decoded text and the size, \<open>Failed\<close> the last error and the number of
  attempts (the entry of type \<open>error\<close>). \<open>CsvError\<close>, \<open>PdfError\<close> and \<open>JsonError\<close>
  are the entries with an \<open>error\<close> key that the three \<open>except\<close> branches store.
\<close>

record csv_table =
  columns :: "str list"
  data :: "(str \<times> json) list list"

datatype payload =
    Audio str str str
  | Csv csv_table
  | CsvError str
  | Pdf nat "(nat \<times> str) list"
  | PdfError str
  | Json json
  | JsonError str
  | Binary str nat
  | Failed "str option" nat

text \<open>
  The decoders the pipeline calls, parameters of the model: the speech-to-text chain of
  \<open>transcribe_audio\<close> (ffmpeg, pydub and the speech recognizer; it returns a string on
  every path), \<open>base64.b64encode\<close>, \<open>pandas.read_csv\<close>, PyPDF2's reader with
  \<open>extract_text\<close> on every page, \<open>response.json()\<close> and \<open>response.text\<close>.
\<close>

record decoders =
  transcribe_audio :: "bytes \<Rightarrow> str \<Rightarrow> str"
  b64encode :: "bytes \<Rightarrow> str"
  read_csv :: "bytes \<Rightarrow> error + csv_table"
  pdf_pages :: "bytes \<Rightarrow> error + str list"
  response_json :: "bytes \<Rightarrow> error + json"
  response_text :: "bytes \<Rightarrow> str"

text \<open>
  The method \<open>_parse_pdf\<close> (quiz\_solver.py, lines 528 to 553); an Isabelle name cannot
  begin with the underscore.
\<close>

definition parse_pdf_method :: "decoders \<Rightarrow> bytes \<Rightarrow> payload" where
  "parse_pdf_method D pdf_bytes =
     (case pdf_pages D pdf_bytes of
        Inl e \<Rightarrow> PdfError (error_str e)
      | Inr texts \<Rightarrow> Pdf (length texts) (zip [1..<Suc (length texts)] texts))"

text \<open>
  The attributes of a \<open>QuizSolver\<close> object: the three that \<open>__init__\<close> sets and the
  methods of the class. Looking up any other name raises \<open>AttributeError\<close>.
\<close>

definition quiz_solver_attributes :: "string list" where
  "quiz_solver_attributes =
     [''llm'', ''http_client'', ''start_time'', ''solve_quiz_chain'', ''_solve_single_question'',
      ''_fetch_quiz_page'', ''_parse_question'', ''download_files'', ''transcribe_audio'',
      ''_parse_pdf'', ''_submit_answer'', ''close'']"

definition no_attribute :: "string \<Rightarrow> error" where
  "no_attribute name =
     AttributeError ([39] @ asc ''QuizSolver'' @ [39] @ asc '' object has no attribute '' @ [39] @ asc name @ [39])"

text \<open>\<open>s.split(sep)[-1]\<close> for a separator of one character.\<close>

definition split_last :: "nat \<Rightarrow> str \<Rightarrow> str" where
  "split_last sep s = rev (takeWhile (\<lambda>c. c \<noteq> sep) (rev s))"

text \<open>
  The entry stored for a response with status 200 and a body (\<open>download_files\<close>, lines 360
  to 418). The PDF branch calls \<open>self.parse_pdf(response.content)\<close> inside a \<open>try\<close>
  whose \<open>except\<close> stores the text of the exception: the name \<open>parse_pdf\<close> is looked up
  among the attributes of the object, and the parser runs when the lookup succeeds.
\<close>

definition store_response :: "decoders \<Rightarrow> pylib \<Rightarrow> str \<Rightarrow> str \<Rightarrow> bytes \<Rightarrow> payload" where
  "store_response D L url content_type content =
     (if list_ex (\<lambda>ext. str_in ext (lower L url)) audio_extensions then
        Audio (split_last 46 url) (transcribe_audio D content url) (b64encode D content)
      else if str_in (asc ''csv'') content_type \<or> endswith (lower L url) (asc ''.csv'') then
        (case read_csv D content of Inl e \<Rightarrow> CsvError (error_str e) | Inr df \<Rightarrow> Csv df)
      else if str_in (asc ''pdf'') content_type \<or> endswith (lower L url) (asc ''.pdf'') then
        (if ''parse_pdf'' \<in> set quiz_solver_attributes then parse_pdf_method D content
         else PdfError (error_str (no_attribute ''parse_pdf'')))
      else if str_in (asc ''json'') content_type \<or> endswith (lower L url) (asc ''.json'') then
        (case response_json D content of Inl e \<Rightarrow> JsonError (error_str e) | Inr j \<Rightarrow> Json j)
      else Binary (response_text D content) (length content))"

text \<open>
  The attempts on one URL (lines 334 to 433): the entry stored so far, \<open>last_error\<close>, and
  the number of requests sent. A status other than 200, an empty body, a timeout and any
  other exception each set \<open>last_error\<close> and go on to the next attempt (after a sleep,
  which the model leaves out); a response with a body is stored and ends the loop.
\<close>

record attempt_state =
  entry :: "payload option"
  last_error :: "str option"
  gets :: nat

fun attempt_loop ::
  "decoders \<Rightarrow> pylib \<Rightarrow> (nat \<Rightarrow> get_outcome) \<Rightarrow> str \<Rightarrow> nat list \<Rightarrow> attempt_state \<Rightarrow> attempt_state" where
  "attempt_loop D L get url [] st = st"
| "attempt_loop D L get url (attempt # rest) st =
     (let st = st\<lparr>gets := Suc (gets st)\<rparr> in
      case get attempt of
        Response status_code content_type content \<Rightarrow>
          if status_code \<noteq> 200
          then attempt_loop D L get url rest (st\<lparr>last_error := Some (asc ''HTTP '' @ str_of_nat status_code)\<rparr>)
          else if length content = 0
          then attempt_loop D L get url rest (st\<lparr>last_error := Some (asc ''Empty response'')\<rparr>)
          else st\<lparr>entry := Some (store_response D L url content_type content)\<rparr>
      | GetTimeout \<Rightarrow> attempt_loop D L get url rest (st\<lparr>last_error := Some (asc ''Timeout'')\<rparr>)
      | GetRaised m \<Rightarrow> attempt_loop D L get url rest (st\<lparr>last_error := Some m\<rparr>))"

definition max_retries :: nat where
  "max_retries = 2"

text \<open>
  One pass of the loop over the URLs: the attempts \<open>range(max_retries + 1)\<close>, and the
  entry of type \<open>error\<close> when none succeeded (lines 436 to 442).
\<close>

definition download_one :: "decoders \<Rightarrow> pylib \<Rightarrow> (nat \<Rightarrow> get_outcome) \<Rightarrow> str \<Rightarrow> attempt_state" where
  "download_one D L get url =
     (let st = attempt_loop D L get url [0..<max_retries + 1] \<lparr>entry = None, last_error = None, gets = 0\<rparr> in
      case entry st of
        Some p \<Rightarrow> st
      | None \<Rightarrow> st\<lparr>entry := Some (Failed (last_error st) (max_retries + 1))\<rparr>)"

text \<open>
  \<open>download_files\<close> (lines 325 to 445). \<open>get i url n\<close> is the outcome of attempt \<open>n\<close> on
  the URL at position \<open>i\<close> of the list.
\<close>

definition download_files ::
  "decoders \<Rightarrow> pylib \<Rightarrow> (nat \<Rightarrow> str \<Rightarrow> nat \<Rightarrow> get_outcome) \<Rightarrow> str list \<Rightarrow> (str \<rightharpoonup> payload)" where
  "download_files D L get urls =
     foldl (\<lambda>files (i, url). files(url := entry (download_one D L (get i url) url)))
       Map.empty (zip [0..<length urls] urls)"

text \<open>
  The attempts that fail: a response with a status other than 200 or with an empty body,
  a timeout, any other exception; and the error each leaves in \<open>last_error\<close>.
\<close>

fun attempt_fails :: "get_outcome \<Rightarrow> bool" where
  "attempt_fails (Response status_code content_type content) = (status_code \<noteq> 200 \<or> content = [])"
| "attempt_fails GetTimeout = True"
| "attempt_fails (GetRaised m) = True"

fun attempt_error :: "get_outcome \<Rightarrow> str" where
  "attempt_error (Response status_code content_type content) =
     (if status_code \<noteq> 200 then asc ''HTTP '' @ str_of_nat status_code else asc ''Empty response'')"
| "attempt_error GetTimeout = asc ''Timeout''"
| "attempt_error (GetRaised m) = m"

text \<open>The entry of type \<open>error\<close>.\<close>

fun is_failed :: "payload \<Rightarrow> bool" where
  "is_failed (Failed e n) = True"
| "is_failed p = False"

section \<open>Chain Driver\<close>

text \<open>\<open>QuizAnswerResponse\<close> (models.py): the verdict of the quiz service.\<close>

record answer_response =
  resp_correct :: bool
  resp_url :: "str option"
  resp_reason :: "str option"

text \<open>
  What the outside world does during one question, parameters of the model:
  \<^item> \<open>fetch_quiz_page\<close>: the rendered HTML of a URL, or the exception of the browser;
  \<^item> \<open>soup_of\<close>, \<open>submit_match_of\<close>, \<open>all_urls_of\<close>: for an HTML text, the tree
    BeautifulSoup builds and the results of the two regular-expression searches of
    \<open>_parse_question\<close> for a submission URL;
  \<^item> \<open>http_get\<close>: the outcomes of the resource downloads;
  \<^item> \<open>llm_reply\<close>: the content of the reply to the analysis call, or the exception
    \<open>_call_llm\<close> re-raises;
  \<^item> \<open>run_script\<close>: the outcome of running a script in the subprocess;
  \<^item> \<open>post_answer\<close>: the verdict for an answer posted to a URL, or the exception of the
    request, of \<open>raise_for_status\<close> or of the validation of the reply.
\<close>

record question_env =
  fetch_quiz_page :: "str \<Rightarrow> error + str"
  soup_of :: "str \<Rightarrow> node"
  submit_match_of :: "str \<Rightarrow> str option"
  all_urls_of :: "str \<Rightarrow> str list"
  http_get :: "nat \<Rightarrow> str \<Rightarrow> nat \<Rightarrow> get_outcome"
  llm_reply :: "error + str"
  run_script :: "str \<Rightarrow> proc_outcome"
  post_answer :: "str \<Rightarrow> json \<Rightarrow> error + answer_response"

text \<open>
  \<open>analyze_quiz\<close> (llm\_handler.py, lines 73 to 93). The first call to the model, for the
  context, catches its exceptions and only feeds the prompt; \<open>question_details\<close> is bound
  only when the URL and the page are not empty, and the next line reads it.
\<close>

definition analyze_quiz :: "pylib \<Rightarrow> question_env \<Rightarrow> str \<Rightarrow> str \<Rightarrow> error + json" where
  "analyze_quiz L Q page_content quiz_url =
     (if quiz_url \<noteq> [] \<and> page_content \<noteq> [] then
        (case llm_reply Q of
           Inl e \<Rightarrow> Inl e
         | Inr llm_response \<Rightarrow> Inr (process_llm_response L llm_response))
      else Inl (Raised (asc ''cannot access local variable '' @ [39] @ asc ''question_details'' @ [39]
                        @ asc '' where it is not associated with a value'')))"

text \<open>
  The \<open>answer\<close> of the payload (\<open>_submit_answer\<close>, line 579): the answer itself when
  it is a string, a number or a Boolean, else \<open>json.dumps\<close> of it.
\<close>

definition payload_answer :: "pylib \<Rightarrow> json \<Rightarrow> json" where
  "payload_answer L answer =
     (case answer of
        JNull \<Rightarrow> JStr (json_dumps L answer)
      | JArr xs \<Rightarrow> JStr (json_dumps L answer)
      | JObj d \<Rightarrow> JStr (json_dumps L answer)
      | _ \<Rightarrow> answer)"

definition submit_answer :: "pylib \<Rightarrow> question_env \<Rightarrow> str \<Rightarrow> str option \<Rightarrow> json \<Rightarrow> error + answer_response" where
  "submit_answer L Q quiz_url submit_url answer =
     (case submit_answer_url L quiz_url submit_url of
        Inl e \<Rightarrow> Inl e
      | Inr target \<Rightarrow> post_answer Q target (payload_answer L answer))"

text \<open>
  \<open>_solve_single_question\<close> (quiz\_solver.py, lines 99 to 146). No statement of it
  stands in a \<open>try\<close>: an exception of any step leaves the function. The context passed
  to \<open>execute_solution\<close> is the question record, of which the model builds the two
  entries it computes.
\<close>

definition solve_single_question :: "pylib \<Rightarrow> decoders \<Rightarrow> question_env \<Rightarrow> str \<Rightarrow> error + answer_response" where
  "solve_single_question L D Q quiz_url =
     (case fetch_quiz_page Q quiz_url of
        Inl e \<Rightarrow> Inl e
      | Inr page_content \<Rightarrow>
          (let file_urls = parse_question_file_urls L (soup_of Q page_content) quiz_url;
               submit_url = parse_question_submit_url L (submit_match_of Q page_content)
                              (all_urls_of Q page_content);
               downloaded_files =
                 (if file_urls \<noteq> [] then Some (download_files D L (http_get Q) file_urls) else None);
               question_data =
                 JObj [(asc ''submit_url'', (case submit_url of None \<Rightarrow> JNull | Some s \<Rightarrow> JStr s)),
                       (asc ''file_urls'', JArr (map JStr file_urls))]
           in case analyze_quiz L Q page_content quiz_url of
                Inl e \<Rightarrow> Inl e
              | Inr solution \<Rightarrow>
                  (case execute_solution L (run_script Q) solution question_data of
                     Inl e \<Rightarrow> Inl e
                   | Inr answer \<Rightarrow> submit_answer L Q quiz_url submit_url answer)))"

text \<open>
  How the loop of \<open>solve_quiz_chain\<close> ends: its condition \<open>while current_url\<close> fails, or
  one of the four \<open>break\<close>s, after the log lines "Timeout reached", "Quiz completed
  successfully!", "No more questions" and "Error solving question". The result has the
  counter \<open>question_count\<close>, which the last log lines print as "Questions attempted", and
  the URLs on which the single-question pipeline was run.
\<close>

datatype stop = LoopCondition | TimeoutReached | QuizCompleted | NoMoreQuestions | ErrorSolving error

record chain_result =
  ended :: stop
  question_count :: nat
  attempted :: "str list"

text \<open>
  The world of a chain: \<open>elapsed_us W n\<close> is the time since \<open>start_time\<close>, in
  microseconds, that the \<open>n\<close>-th pass of the loop reads; \<open>question W n\<close> is what the
  outside world does during that pass.
\<close>

record world =
  elapsed_us :: "nat \<Rightarrow> int"
  question :: "nat \<Rightarrow> question_env"

text \<open>
  The loop of \<open>solve_quiz_chain\<close> (lines 53 to 90), with fuel: one unit per pass, and
  \<open>None\<close> when the fuel runs out. The counter is incremented first, the deadline is tested
  next (\<open>elapsed > settings.QUIZ_TIMEOUT_SECONDS\<close>, in seconds), and then the question is
  solved inside a \<open>try\<close> whose \<open>except Exception\<close> logs the error and leaves the loop.
  The function returns normally on every path; the result type keeps a place for an
  exception, which \<open>solve_quiz_background\<close> has a handler for.
\<close>

fun chain_loop ::
  "nat \<Rightarrow> pylib \<Rightarrow> decoders \<Rightarrow> world \<Rightarrow> int \<Rightarrow> str \<Rightarrow> nat \<Rightarrow> str list \<Rightarrow> (error + chain_result) option" where
  "chain_loop 0 L D W timeout_seconds current_url n seen = None"
| "chain_loop (Suc fuel) L D W timeout_seconds current_url n seen =
     (if current_url = [] then
        Some (Inr \<lparr>ended = LoopCondition, question_count = n, attempted = seen\<rparr>)
      else
        (let n = n + 1 in
         if elapsed_us W n > timeout_seconds * 1000000 then
           Some (Inr \<lparr>ended = TimeoutReached, question_count = n, attempted = seen\<rparr>)
         else
           (let seen = seen @ [current_url] in
            case solve_single_question L D (question W n) current_url of
              Inl e \<Rightarrow> Some (Inr \<lparr>ended = ErrorSolving e, question_count = n, attempted = seen\<rparr>)
            | Inr result \<Rightarrow>
                (case (if truthy (resp_url result) then resp_url result else None) of
                   Some next_url \<Rightarrow> chain_loop fuel L D W timeout_seconds next_url n seen
                 | None \<Rightarrow>
                     Some (Inr \<lparr>ended = (if resp_correct result then QuizCompleted else NoMoreQuestions),
                                 question_count = n, attempted = seen\<rparr>)))))"

definition solve_quiz_chain ::
  "nat \<Rightarrow> pylib \<Rightarrow> decoders \<Rightarrow> world \<Rightarrow> int \<Rightarrow> str \<Rightarrow> (error + chain_result) option" where
  "solve_quiz_chain fuel L D W timeout_seconds initial_url =
     chain_loop fuel L D W timeout_seconds initial_url 0 []"

text \<open>An entry of \<open>active_tasks\<close> (main.py).\<close>

record task =
  task_url :: str
  started_at :: str
  status :: str
  task_error :: "str option"
  completed_at :: "str option"
  failed_at :: "str option"

text \<open>
  \<open>solve_quiz_background\<close> (main.py, lines 455 to 503), up to the \<open>finally\<close> block, which
  deletes the task five minutes later: the task table as the \<open>try\<close> or the handler
  leaves it. \<open>now\<close> is the time stamp written.
\<close>

definition solve_quiz_background ::
  "nat \<Rightarrow> pylib \<Rightarrow> decoders \<Rightarrow> world \<Rightarrow> int \<Rightarrow> str \<Rightarrow> str \<Rightarrow> str \<Rightarrow> (str \<rightharpoonup> task) \<Rightarrow> (str \<rightharpoonup> task) option" where
  "solve_quiz_background fuel L D W timeout_seconds now quiz_url task_id active_tasks =
     (let active_tasks =
            (case active_tasks task_id of
               None \<Rightarrow> active_tasks
             | Some t \<Rightarrow> active_tasks(task_id \<mapsto> t\<lparr>status := asc ''solving''\<rparr>))
      in case solve_quiz_chain fuel L D W timeout_seconds quiz_url of
           None \<Rightarrow> None
         | Some (Inr r) \<Rightarrow>
             Some (case active_tasks task_id of
                     None \<Rightarrow> active_tasks
                   | Some t \<Rightarrow> active_tasks(task_id \<mapsto> t\<lparr>status := asc ''completed'', completed_at := Some now\<rparr>))
         | Some (Inl e) \<Rightarrow>
             Some (case active_tasks task_id of
                     None \<Rightarrow> active_tasks
                   | Some t \<Rightarrow> active_tasks(task_id \<mapsto> t\<lparr>status := asc ''failed'', task_error := Some (error_str e),
                                                           failed_at := Some now\<rparr>)))"

text \<open>
  A library table for closed evaluations. The inputs evaluated with it are ASCII text on
  which the code calls none of its entries, so any other table gives the same result.
\<close>

definition no_lib :: pylib where
  "no_lib = \<lparr> lower_ext = (\<lambda>s. s), printable_ext = (\<lambda>c. False), int_ext = (\<lambda>s. None),
      float_ext = (\<lambda>s. None), json_loads = (\<lambda>s. None), json_dumps = (\<lambda>j. []),
      py_str = (\<lambda>j. []),
      urljoin = (\<lambda>b s. s), urlparse = (\<lambda>v. Inr ([], [])) \<rparr>"


text \<open>
  Decoders for closed evaluations: the PDF reader finds two pages in every document, the
  CSV and JSON parsers reject everything.
\<close>

definition two_page_decoders :: decoders where
  "two_page_decoders = \<lparr> transcribe_audio = (\<lambda>b u. []), b64encode = (\<lambda>b. []),
      read_csv = (\<lambda>b. Inl (Raised [])),
      pdf_pages = (\<lambda>b. Inr [asc ''page one'', asc ''page two'']),
      response_json = (\<lambda>b. Inl (Raised [])), response_text = (\<lambda>b. []) \<rparr>"

text \<open>
  Worlds for closed evaluations. The model replies with a JSON object whose
  \<open>solution_code\<close> is a script that exits with status 1 (\<open>code_reply\<close>) or the literal
  answer 42 (\<open>literal_reply\<close>); \<open>reply_lib\<close> decodes these two texts as \<open>json.loads\<close>
  does. The page has no resource link, and the quiz service accepts every answer and
  names a next question. In \<open>failing_world\<close> the script exits with status 1 and the
  text \<open>boom\<close> on standard error; in \<open>slow_world\<close> the first pass reads the clock at 0
  and every later pass at 200 seconds.
\<close>

definition quoted :: "string \<Rightarrow> str" where
  "quoted s = [34] @ asc s @ [34]"

definition code_reply :: str where
  "code_reply = asc ''{'' @ quoted ''solution_code'' @ asc '': '' @ quoted ''import sys; sys.exit(1)'' @ asc ''}''"

definition literal_reply :: str where
  "literal_reply = asc ''{'' @ quoted ''solution_code'' @ asc '': '' @ quoted ''42'' @ asc ''}''"

definition reply_lib :: pylib where
  "reply_lib = no_lib\<lparr>json_loads :=
     (\<lambda>s. if s = code_reply then Some (JObj [(asc ''solution_code'', JStr (asc ''import sys; sys.exit(1)''))])
          else if s = literal_reply then Some (JObj [(asc ''solution_code'', JStr (asc ''42''))])
          else None)\<rparr>"

definition plain_page :: "str \<Rightarrow> proc_outcome \<Rightarrow> answer_response \<Rightarrow> question_env" where
  "plain_page reply outcome verdict =
     \<lparr> fetch_quiz_page = (\<lambda>u. Inr (asc ''<html><body>Q</body></html>'')),
       soup_of = (\<lambda>h. Tag (asc ''[document]'') [] []),
       submit_match_of = (\<lambda>h. None), all_urls_of = (\<lambda>h. []),
       http_get = (\<lambda>i u n. GetTimeout),
       llm_reply = Inr reply, run_script = (\<lambda>c. outcome),
       post_answer = (\<lambda>u a. Inr verdict) \<rparr>"

definition failing_world :: world where
  "failing_world =
     \<lparr> elapsed_us = (\<lambda>n. 0),
       question = (\<lambda>n. plain_page code_reply (Completed 1 [] (asc ''boom''))
                          \<lparr>resp_correct = True, resp_url = Some (asc ''https://quiz.example/q2''), resp_reason = None\<rparr>) \<rparr>"

definition slow_world :: world where
  "slow_world =
     \<lparr> elapsed_us = (\<lambda>n. if n \<le> 1 then 0 else 200000000),
       question = (\<lambda>n. plain_page literal_reply (Completed 0 [] [])
                          \<lparr>resp_correct = True, resp_url = Some (asc ''https://quiz.example/q2''), resp_reason = None\<rparr>) \<rparr>"

definition one_task :: "str \<rightharpoonup> task" where
  "one_task = [asc ''quiz_1'' \<mapsto> \<lparr>task_url = asc ''https://quiz.example/q1'', started_at = asc ''t0'',
       status = asc ''processing'', task_error = None, completed_at = None, failed_at = None\<rparr>]"

section \<open>Theorems\<close>

text \<open>
  C1. The claim: the Answer Submitter uses the submission URL of the question record
  when there is one, else derives one from the question URL by putting \<open>/submit\<close> for
  \<open>/quiz\<close>, else falls back to scheme, host and \<open>/submit\<close>. In the code the URL posted
  to is the fixed endpoint for every question URL and every submission URL passed in, so
  an explicit URL of the question record is never used and no URL is derived; and the
  question record itself carries the fixed endpoint in place of a URL matched on the page.
\<close>

theorem submit_answer_url_fixed:
  "submit_answer_url L quiz_url submit_url
     = Inr (asc ''https://tds-llm-analysis.s-anand.net/submit'')
   \<and> parse_question_submit_url L (Some matched) all_urls
     = Some (asc ''https://tds-llm-analysis.s-anand.net/submit'')"
  by (simp add: submit_answer_url_def parse_question_submit_url_def asc_def)

subsection \<open>Text replacement\<close>

lemma set_replace_subset: "set (replace old new s) \<subseteq> set s \<union> set new"
proof (induction old new s rule: replace.induct)
  case (1 old new)
  then show ?case by auto
next
  case (2 old new c cs)
  show ?case
  proof (cases "old = []")
    case True
    with 2 show ?thesis by auto
  next
    case False
    show ?thesis
    proof (cases "startswith (c # cs) old")
      case True
      have "set (drop (length old) (c # cs)) \<subseteq> set (c # cs)" by (rule set_drop_subset)
      with 2(2)[OF False True] False True show ?thesis by auto
    next
      case nt: False
      with 2(3)[OF False nt] False show ?thesis by auto
    qed
  qed
qed

lemma replace_single_removes: "c \<notin> set new \<Longrightarrow> c \<notin> set (replace [c] new s)"
proof (induction s)
  case Nil
  then show ?case by simp
next
  case (Cons a s)
  then show ?case by (auto simp: startswith_def)
qed

lemma notin_replace: "c \<notin> set s \<Longrightarrow> c \<notin> set new \<Longrightarrow> c \<notin> set (replace old new s)"
  using set_replace_subset[of old new s] by auto

subsection \<open>The third decode candidate\<close>

lemma salvage_clean_printable: "list_all (isprintable L) (salvage_clean L t)"
proof -
  have "set (salvage_clean L t) \<subseteq> {c. isprintable L c}"
    unfolding salvage_clean_def Let_def
    using set_replace_subset[of "asc ''``````''" "[]"] by fastforce
  then show ?thesis by (auto simp: list_all_iff)
qed

lemma salvage_clean_no_newline_tab:
  "10 \<notin> set (salvage_clean L t) \<and> 9 \<notin> set (salvage_clean L t)"
  using salvage_clean_printable[of L t] by (auto simp: list_all_iff isprintable_def)

lemma salvage_clean_no_smart_quotes:
  "8220 \<notin> set (salvage_clean L t) \<and> 8221 \<notin> set (salvage_clean L t)
     \<and> 8217 \<notin> set (salvage_clean L t)"
proof -
  let ?c1 = "strip (replace (asc ''```'') [] (replace (asc ''```json'') [] t))"
  let ?c2 = "replace [9] (asc '' '') (replace [10] (asc '' '') ?c1)"
  let ?a = "replace [8220] [34] ?c2"
  let ?b = "replace [8221] [34] ?a"
  let ?c3 = "replace [8217] [39] ?b"
  have a: "8220 \<notin> set ?a" by (rule replace_single_removes) simp
  have b: "8220 \<notin> set ?b \<and> 8221 \<notin> set ?b"
    using a replace_single_removes[of 8221 "[34]" ?a] notin_replace[of 8220 ?a "[34]" "[8221]"]
    by simp
  have c: "8220 \<notin> set ?c3 \<and> 8221 \<notin> set ?c3 \<and> 8217 \<notin> set ?c3"
    using b replace_single_removes[of 8217 "[39]" ?b] notin_replace[of 8220 ?b "[39]" "[8217]"]
      notin_replace[of 8221 ?b "[39]" "[8217]"] by simp
  let ?c4 = "replace [92, 34] [34] (replace [92, 39] [39] ?c3)"
  have d: "8220 \<notin> set ?c4 \<and> 8221 \<notin> set ?c4 \<and> 8217 \<notin> set ?c4"
    using c by (simp add: notin_replace)
  have e: "set (salvage_clean L t) \<subseteq> set ?c4"
    unfolding salvage_clean_def Let_def
    using set_replace_subset[of "asc ''``````''" "[]" "filter (isprintable L) ?c4"] by auto
  show ?thesis using d e by blast
qed

text \<open>
  The brace-delimited part runs from the first opening brace (code 123) to the last
  closing brace (code 125) after it, and there is none exactly when no opening brace is
  followed by a closing one.
\<close>

lemma brace_match_first_last:
  assumes "123 \<notin> set pre" "125 \<notin> set post"
  shows "brace_match (pre @ 123 # mid @ 125 # post) = Some (123 # mid @ [125])"
proof -
  have a: "dropWhile (\<lambda>c. c \<noteq> 123) (pre @ 123 # mid @ 125 # post) = 123 # mid @ 125 # post"
    using assms(1) by (auto simp: dropWhile_append3)
  have b: "dropWhile (\<lambda>c. c \<noteq> 125) (rev post @ 125 # rev mid @ [123]) = 125 # rev mid @ [123]"
    using assms(2) by (auto simp: dropWhile_append3)
  show ?thesis unfolding brace_match_def a Let_def using b by simp
qed

lemma brace_match_None:
  "(brace_match t = None) = (\<not> (\<exists>pre mid post. t = pre @ 123 # mid @ 125 # post))"
proof
  assume n: "brace_match t = None"
  show "\<not> (\<exists>pre mid post. t = pre @ 123 # mid @ 125 # post)"
  proof
    assume "\<exists>pre mid post. t = pre @ 123 # mid @ 125 # post"
    then obtain pre mid post where t: "t = pre @ 123 # mid @ 125 # post" by blast
    have "125 \<in> set (dropWhile (\<lambda>c. c \<noteq> 123) t)"
    proof (cases "123 \<in> set pre")
      case True
      then have "dropWhile (\<lambda>c. c \<noteq> 123) t = dropWhile (\<lambda>c. c \<noteq> 123) pre @ 123 # mid @ 125 # post"
        unfolding t by (intro dropWhile_append1[of 123 pre]) auto
      then show ?thesis by simp
    next
      case False
      then have "dropWhile (\<lambda>c. c \<noteq> 123) t = 123 # mid @ 125 # post"
        unfolding t by (auto simp: dropWhile_append3)
      then show ?thesis by simp
    qed
    then have "dropWhile (\<lambda>c. c \<noteq> 125) (rev (dropWhile (\<lambda>c. c \<noteq> 123) t)) \<noteq> []"
      unfolding dropWhile_eq_Nil_conv set_rev by blast
    with n show False by (auto simp: brace_match_def Let_def split: if_splits)
  qed
next
  assume h: "\<not> (\<exists>pre mid post. t = pre @ 123 # mid @ 125 # post)"
  show "brace_match t = None"
  proof (rule ccontr)
    assume "brace_match t \<noteq> None"
    then have ne: "dropWhile (\<lambda>c. c \<noteq> 125) (rev (dropWhile (\<lambda>c. c \<noteq> 123) t)) \<noteq> []"
      by (simp add: brace_match_def Let_def split: if_splits)
    define fo where "fo = dropWhile (\<lambda>c. c \<noteq> 123) t"
    from ne have "125 \<in> set fo" unfolding fo_def dropWhile_eq_Nil_conv set_rev by blast
    then obtain xs ys where fo: "fo = xs @ 125 # ys" by (meson split_list)
    have t: "t = takeWhile (\<lambda>c. c \<noteq> 123) t @ fo" unfolding fo_def by simp
    from fo have "fo \<noteq> []" by simp
    then have "hd fo = 123" unfolding fo_def using hd_dropWhile[of "\<lambda>c. c \<noteq> 123" t] by auto
    with fo obtain mid where "xs = 123 # mid" by (cases xs) auto
    with fo t have "t = takeWhile (\<lambda>c. c \<noteq> 123) t @ 123 # mid @ 125 # ys" by simp
    with h show False by blast
  qed
qed

text \<open>
  A response fenced as three backticks, a language tag, a newline, a body and three
  backticks is trimmed to the body.
\<close>

lemma preclean_fence:
  assumes "10 \<notin> set lang" "lang = [] \<or> hd lang \<noteq> 96" "rest = [] \<or> last rest \<noteq> 96"
  shows "preclean (asc ''```'' @ lang @ 10 # rest @ asc ''```'') = rest"
proof -
  let ?r = "[96, 96, 96] @ lang @ 10 # rest @ [96, 96, 96]"
  have f: "asc ''```'' = [96, 96, 96]" by (simp add: asc_def)
  have s: "strip ?r = ?r"
    by (simp add: strip_def strip_chars_def isspace_def)
  have sw: "startswith ?r [96, 96, 96]" by (simp add: startswith_def)
  have d1: "dropWhile (\<lambda>c. c = 96) ?r = lang @ 10 # rest @ [96, 96, 96]"
    using assms(2) by (cases lang) auto
  have d2: "dropWhile (\<lambda>c. c = 96) (rev (lang @ 10 # rest @ [96, 96, 96])) = rev rest @ 10 # rev lang"
    using assms(3) by (cases rest rule: rev_cases) auto
  have sc: "strip_chars (\<lambda>c. c = 96) ?r = lang @ 10 # rest"
    unfolding strip_chars_def d1 d2 by simp
  have d3: "dropWhile (\<lambda>c. c \<noteq> 10) (lang @ 10 # rest) = 10 # rest"
    using assms(1) by (auto simp: dropWhile_append3)
  show ?thesis unfolding preclean_def f s Let_def sc d3 using sw by simp
qed

lemma salvage_clean_steps:
  "salvage_clean L t =
     replace (asc ''``````'') []
       (filter (isprintable L)
         (replace [92, 34] [34] (replace [92, 39] [39]
           (replace [8217] [39] (replace [8221] [34] (replace [8220] [34]
             (replace [9] [32] (replace [10] [32]
               (strip (replace (asc ''```'') [] (replace (asc ''```json'') [] t)))))))))))"
  by (simp add: salvage_clean_def Let_def asc_def)

lemma preclean_steps:
  "preclean r =
     (if startswith (strip r) (asc ''```'')
      then (if 10 \<in> set (strip_chars (\<lambda>c. c = 96) (strip r))
            then drop 1 (dropWhile (\<lambda>c. c \<noteq> 10) (strip_chars (\<lambda>c. c = 96) (strip r)))
            else strip_chars (\<lambda>c. c = 96) (strip r))
      else strip r)"
  by (simp add: preclean_def Let_def)

lemma preclean_id: "strip r = r \<Longrightarrow> \<not> startswith r (asc ''```'') \<Longrightarrow> preclean r = r"
  by (simp add: preclean_def)

lemma degraded_plan_fields:
  "plan_field (degraded_plan t) (asc ''solution'') = Some (JStr t)"
  "plan_field (degraded_plan t) (asc ''answer_type'') = Some (JStr (asc ''string''))"
  "plan_field (degraded_plan t) (asc ''solution_code'') = None"
  by (simp_all add: plan_field_def degraded_plan_def asc_def)

text \<open>
  A response with a leading space and no JSON in it: whatever the library, as long as
  its decoder rejects the text \<open>hi\<close>, the degraded plan carries \<open>hi\<close> without the space.
\<close>

lemma process_llm_response_trims:
  "json_loads L (asc ''hi'') = None
   \<Longrightarrow> plan_field (process_llm_response L (asc '' hi'')) (asc ''solution'') = Some (JStr (asc ''hi''))"
proof -
  assume h: "json_loads L (asc ''hi'') = None"
  have p: "preclean (asc '' hi'') = asc ''hi''"
    by (simp add: preclean_def strip_def strip_chars_def isspace_def asc_def startswith_def)
  have b: "brace_match (asc ''hi'') = None"
    by (simp add: brace_match_def asc_def)
  have s: "salvage_clean L (asc ''hi'') = asc ''hi''"
    by (simp add: salvage_clean_def strip_def strip_chars_def isspace_def isprintable_def asc_def
        startswith_def)
  show ?thesis
    by (simp add: process_llm_response_def parse_json_response_def p b s h degraded_plan_fields)
qed

text \<open>
  C5. The claim: the salvage tries (a) a decode of the response, (b) a decode of the
  text from the first opening brace to the last closing brace, (c) a decode of the text
  with the fence markers removed, newlines and tabs turned into spaces, the smart quotes
  made ASCII and the non-printable characters dropped, and otherwise returns a degraded
  plan whose \<open>solution\<close> is the original input text and whose \<open>answer_type\<close> is
  \<open>string\<close>. The claim fails on the last point for a response with white space
  around it or a leading code fence: \<open>_process_llm_response\<close> first trims the response
  and removes a leading fence, and all three decodes and the degraded plan work on that
  trimmed text.
\<close>

theorem process_llm_response_solution_counterexample:
  "plan_field (process_llm_response no_lib (asc '' hi'')) (asc ''solution'')
     \<noteq> Some (JStr (asc '' hi''))"
  by (simp add: plan_field_def process_llm_response_def parse_json_response_def no_lib_def
      preclean_def strip_def strip_chars_def isspace_def asc_def startswith_def brace_match_def
      degraded_plan_def)

text \<open>
  C5, as amended: with \<open>t\<close> the response after the trimming of
  \<open>_process_llm_response\<close> (\<open>preclean\<close>), the result is the first of the decodes of
  \<open>t\<close>, of the brace-delimited part of \<open>t\<close> and of the cleaned \<open>t\<close> that succeeds, and
  otherwise the degraded plan whose \<open>solution\<close> is \<open>t\<close> and whose \<open>answer_type\<close> is
  \<open>string\<close>.
  \<^item> The trimming: \<open>t\<close> is the response without the white space around it; when that
    starts with three backticks, the backticks at both ends are removed and, if a newline
    is left, the text up to the first newline. So \<open>t\<close> is the response itself when the
    response has no white space around it and no leading fence, and the body of a
    response fenced with a language tag.
  \<^item> The brace-delimited part: from the first opening brace to the last closing brace.
  \<^item> The cleaned text, in this order: the markers of three backticks followed by \<open>json\<close>
    and of three backticks removed, white space around trimmed, newlines and tabs turned
    into spaces, the three smart quotes made ASCII, a backslash before a single or a
    double quote removed, the non-printable characters dropped, every run of six
    backticks removed. It has only printable characters, no newline or tab and none of
    the three smart quotes.
\<close>

theorem process_llm_response_salvage:
  "(json_loads L (preclean r) = Some j \<longrightarrow> process_llm_response L r = j)
   \<and> (json_loads L (preclean r) = None \<and> brace_match (preclean r) = Some m
        \<and> json_loads L m = Some j \<longrightarrow> process_llm_response L r = j)
   \<and> (json_loads L (preclean r) = None
        \<and> (brace_match (preclean r) = None \<or> (\<exists>m. brace_match (preclean r) = Some m \<and> json_loads L m = None))
        \<and> json_loads L (salvage_clean L (preclean r)) = Some j \<longrightarrow> process_llm_response L r = j)
   \<and> (json_loads L (preclean r) = None
        \<and> (brace_match (preclean r) = None \<or> (\<exists>m. brace_match (preclean r) = Some m \<and> json_loads L m = None))
        \<and> json_loads L (salvage_clean L (preclean r)) = None
        \<longrightarrow> process_llm_response L r = degraded_plan (preclean r)
            \<and> plan_field (process_llm_response L r) (asc ''solution'') = Some (JStr (preclean r))
            \<and> plan_field (process_llm_response L r) (asc ''answer_type'') = Some (JStr (asc ''string'')))
   \<and> (strip r = r \<and> \<not> startswith r (asc ''```'') \<longrightarrow> preclean r = r)
   \<and> preclean r =
       (if startswith (strip r) (asc ''```'')
        then (if 10 \<in> set (strip_chars (\<lambda>c. c = 96) (strip r))
              then drop 1 (dropWhile (\<lambda>c. c \<noteq> 10) (strip_chars (\<lambda>c. c = 96) (strip r)))
              else strip_chars (\<lambda>c. c = 96) (strip r))
        else strip r)
   \<and> (10 \<notin> set lang \<and> (lang = [] \<or> hd lang \<noteq> 96) \<and> (body = [] \<or> last body \<noteq> 96)
       \<longrightarrow> preclean (asc ''```'' @ lang @ 10 # body @ asc ''```'') = body)
   \<and> (123 \<notin> set pre \<and> 125 \<notin> set post
       \<longrightarrow> brace_match (pre @ 123 # mid @ 125 # post) = Some (123 # mid @ [125]))
   \<and> ((brace_match t = None) = (\<not> (\<exists>pre mid post. t = pre @ 123 # mid @ 125 # post)))
   \<and> salvage_clean L t =
       replace (asc ''``````'') []
         (filter (isprintable L)
           (replace [92, 34] [34] (replace [92, 39] [39]
             (replace [8217] [39] (replace [8221] [34] (replace [8220] [34]
               (replace [9] [32] (replace [10] [32]
                 (strip (replace (asc ''```'') [] (replace (asc ''```json'') [] t)))))))))))
   \<and> list_all (isprintable L) (salvage_clean L (preclean r))
   \<and> 10 \<notin> set (salvage_clean L (preclean r)) \<and> 9 \<notin> set (salvage_clean L (preclean r))
   \<and> 8220 \<notin> set (salvage_clean L (preclean r)) \<and> 8221 \<notin> set (salvage_clean L (preclean r))
   \<and> 8217 \<notin> set (salvage_clean L (preclean r))"
proof -
  have a: "json_loads L (preclean r) = Some j \<longrightarrow> process_llm_response L r = j"
    by (simp add: process_llm_response_def parse_json_response_def)
  have b: "json_loads L (preclean r) = None \<and> brace_match (preclean r) = Some m
        \<and> json_loads L m = Some j \<longrightarrow> process_llm_response L r = j"
    by (simp add: process_llm_response_def parse_json_response_def)
  have c: "json_loads L (preclean r) = None
        \<and> (brace_match (preclean r) = None \<or> (\<exists>m. brace_match (preclean r) = Some m \<and> json_loads L m = None))
        \<and> json_loads L (salvage_clean L (preclean r)) = Some j \<longrightarrow> process_llm_response L r = j"
    by (auto simp: process_llm_response_def parse_json_response_def)
  have d: "json_loads L (preclean r) = None
        \<and> (brace_match (preclean r) = None \<or> (\<exists>m. brace_match (preclean r) = Some m \<and> json_loads L m = None))
        \<and> json_loads L (salvage_clean L (preclean r)) = None
        \<longrightarrow> process_llm_response L r = degraded_plan (preclean r)
            \<and> plan_field (process_llm_response L r) (asc ''solution'') = Some (JStr (preclean r))
            \<and> plan_field (process_llm_response L r) (asc ''answer_type'') = Some (JStr (asc ''string''))"
    by (auto simp: process_llm_response_def parse_json_response_def degraded_plan_fields)
  have e: "strip r = r \<and> \<not> startswith r (asc ''```'') \<longrightarrow> preclean r = r"
    by (simp add: preclean_id)
  have f: "10 \<notin> set lang \<and> (lang = [] \<or> hd lang \<noteq> 96) \<and> (body = [] \<or> last body \<noteq> 96)
       \<longrightarrow> preclean (asc ''```'' @ lang @ 10 # body @ asc ''```'') = body"
    using preclean_fence[of lang body] by blast
  have g: "123 \<notin> set pre \<and> 125 \<notin> set post
       \<longrightarrow> brace_match (pre @ 123 # mid @ 125 # post) = Some (123 # mid @ [125])"
    using brace_match_first_last[of pre post mid] by blast
  have p: "list_all (isprintable L) (salvage_clean L (preclean r))
   \<and> 10 \<notin> set (salvage_clean L (preclean r)) \<and> 9 \<notin> set (salvage_clean L (preclean r))
   \<and> 8220 \<notin> set (salvage_clean L (preclean r)) \<and> 8221 \<notin> set (salvage_clean L (preclean r))
   \<and> 8217 \<notin> set (salvage_clean L (preclean r))"
    using salvage_clean_printable[of L "preclean r"]
      salvage_clean_no_newline_tab[of L "preclean r"]
      salvage_clean_no_smart_quotes[of L "preclean r"] by blast
  from a b c d e f g p preclean_steps[of r] brace_match_None[of t] salvage_clean_steps[of L t]
  show ?thesis by (intro conjI) blast+
qed

text \<open>
  At a response with no JSON in it and nothing to trim the degraded plan carries the
  response; at a response with prose around an object the second decode gives the object;
  at the response \<open>{\"a\": 1}\<close> only the third decode succeeds, on the text without the
  backslashes; at a response fenced with \<open>json\<close> the first decode reads the body. The
  decoders used here accept one text each: \<open>{}\<close>, \<open>{"a": 1}\<close>, and \<open>{}\<close> with a
  newline after it.
\<close>

theorem process_llm_response_salvage_witness:
  "plan_field (process_llm_response no_lib (asc ''no json here'')) (asc ''solution'')
      = Some (JStr (asc ''no json here''))
   \<and> process_llm_response
        (no_lib\<lparr>json_loads := (\<lambda>s. if s = asc ''{}'' then Some (JObj []) else None)\<rparr>)
        (asc ''Plan: {} done'') = JObj []
   \<and> process_llm_response
        (no_lib\<lparr>json_loads := (\<lambda>s. if s = [123, 34, 97, 34, 58, 32, 49, 125]
                                      then Some (JObj [(asc ''a'', JInt 1)]) else None)\<rparr>)
        [123, 92, 34, 97, 92, 34, 58, 32, 49, 125] = JObj [(asc ''a'', JInt 1)]
   \<and> process_llm_response
        (no_lib\<lparr>json_loads := (\<lambda>s. if s = [123, 125, 10] then Some (JObj []) else None)\<rparr>)
        (asc ''```json'' @ [10, 123, 125, 10] @ asc ''```'') = JObj []"
proof -
  let ?r = "asc ''no json here''"
  have p: "preclean ?r = ?r"
    by (simp add: preclean_def strip_def strip_chars_def isspace_def asc_def startswith_def)
  have n: "json_loads no_lib (preclean ?r) = None
        \<and> (brace_match (preclean ?r) = None
            \<or> (\<exists>m. brace_match (preclean ?r) = Some m \<and> json_loads no_lib m = None))
        \<and> json_loads no_lib (salvage_clean no_lib (preclean ?r)) = None"
    unfolding p by (simp add: no_lib_def brace_match_def asc_def)
  have "plan_field (process_llm_response no_lib ?r) (asc ''solution'') = Some (JStr (preclean ?r))"
    using process_llm_response_salvage[where L = no_lib and r = ?r] n
    by blast
  then have first: "plan_field (process_llm_response no_lib ?r) (asc ''solution'') = Some (JStr ?r)"
    unfolding p .
  let ?L = "no_lib\<lparr>json_loads := (\<lambda>s. if s = asc ''{}'' then Some (JObj []) else None)\<rparr>"
  let ?q = "asc ''Plan: {} done''"
  have q: "preclean ?q = ?q"
    by (simp add: preclean_def strip_def strip_chars_def isspace_def asc_def startswith_def)
  have m: "json_loads ?L (preclean ?q) = None \<and> brace_match (preclean ?q) = Some (asc ''{}'')
        \<and> json_loads ?L (asc ''{}'') = Some (JObj [])"
    unfolding q by (simp add: brace_match_def asc_def)
  have second: "process_llm_response ?L ?q = JObj []"
    using process_llm_response_salvage[where L = ?L and r = ?q and j = "JObj []" and m = "asc ''{}''"] m
    by blast
  let ?M = "no_lib\<lparr>json_loads := (\<lambda>s. if s = [123, 34, 97, 34, 58, 32, 49, 125]
                                      then Some (JObj [(asc ''a'', JInt 1)]) else None)\<rparr>"
  let ?e = "[123, 92, 34, 97, 92, 34, 58, 32, 49, 125]"
  have pe: "preclean ?e = ?e"
    by (simp add: preclean_def strip_def strip_chars_def isspace_def asc_def startswith_def)
  have be: "brace_match ?e = Some ?e"
    by (simp add: brace_match_def)
  have se: "salvage_clean ?M ?e = [123, 34, 97, 34, 58, 32, 49, 125]"
    by (simp add: salvage_clean_def strip_def strip_chars_def isspace_def isprintable_def asc_def
        startswith_def)
  have he: "json_loads ?M (preclean ?e) = None
        \<and> (brace_match (preclean ?e) = None
            \<or> (\<exists>m. brace_match (preclean ?e) = Some m \<and> json_loads ?M m = None))
        \<and> json_loads ?M (salvage_clean ?M (preclean ?e)) = Some (JObj [(asc ''a'', JInt 1)])"
    unfolding pe be se by simp
  have third: "process_llm_response ?M ?e = JObj [(asc ''a'', JInt 1)]"
    using process_llm_response_salvage[where L = ?M and r = ?e and j = "JObj [(asc ''a'', JInt 1)]"] he
    by blast
  let ?N = "no_lib\<lparr>json_loads := (\<lambda>s. if s = [123, 125, 10] then Some (JObj []) else None)\<rparr>"
  let ?f = "asc ''```json'' @ [10, 123, 125, 10] @ asc ''```''"
  have ff: "?f = asc ''```'' @ asc ''json'' @ 10 # [123, 125, 10] @ asc ''```''"
    by (simp add: asc_def)
  have hf: "10 \<notin> set (asc ''json'') \<and> (asc ''json'' = [] \<or> hd (asc ''json'') \<noteq> 96)
      \<and> ([123, 125, 10] = [] \<or> last [123, 125, 10] \<noteq> (96::nat))"
    by (simp add: asc_def)
  have pf: "preclean ?f = [123, 125, 10]"
    unfolding ff
    using process_llm_response_salvage[where lang = "asc ''json''" and body = "[123, 125, 10]"] hf
    by blast
  have lf: "json_loads ?N (preclean ?f) = Some (JObj [])"
    unfolding pf by simp
  have fourth: "process_llm_response ?N ?f = JObj []"
    using process_llm_response_salvage[where L = ?N and r = ?f and j = "JObj []"] lf
    by blast
  show ?thesis using first second third fourth by simp
qed

text \<open>
  C6. \<open>execute_solution\<close> reads two entries of the plan, \<open>solution_code\<close> and
  \<open>answer_type\<close>: two plans that agree on both give the same result, whatever their
  other entries (\<open>final_answer\<close>, \<open>solution\<close>) hold, and the degraded plan, which has no
  \<open>solution_code\<close>, gives the empty string and not the text it carries as \<open>solution\<close>.
\<close>

theorem execute_solution_reads_code_and_type:
  "(map_of p (asc ''solution_code'') = map_of q (asc ''solution_code'')
      \<and> map_of p (asc ''answer_type'') = map_of q (asc ''answer_type'')
      \<longrightarrow> execute_solution L run (JObj p) ctx = execute_solution L run (JObj q) ctx)
   \<and> execute_solution L run (degraded_plan t) ctx = Inr (JStr [])"
  by (simp add: execute_solution_def dict_get_def degraded_plan_def asc_def code_keywords_def
      startswith_def coerce_answer_def)

theorem execute_solution_reads_code_and_type_witness:
  "execute_solution no_lib (\<lambda>code. Completed 0 [] [])
      (JObj [(asc ''answer_type'', JStr (asc ''string'')), (asc ''solution_code'', JStr (asc ''7'')),
             (asc ''final_answer'', JStr (asc ''8'')), (asc ''solution'', JStr (asc ''9''))]) JNull
   = execute_solution no_lib (\<lambda>code. Completed 0 [] [])
      (JObj [(asc ''solution_code'', JStr (asc ''7'')), (asc ''answer_type'', JStr (asc ''string''))]) JNull
   \<and> execute_solution no_lib (\<lambda>code. Completed 0 [] [])
      (JObj [(asc ''solution_code'', JStr (asc ''7'')), (asc ''answer_type'', JStr (asc ''string''))]) JNull
     = Inr (JStr (asc ''7''))"
proof -
  let ?p = "[(asc ''answer_type'', JStr (asc ''string'')), (asc ''solution_code'', JStr (asc ''7'')),
             (asc ''final_answer'', JStr (asc ''8'')), (asc ''solution'', JStr (asc ''9''))]"
  let ?q = "[(asc ''solution_code'', JStr (asc ''7'')), (asc ''answer_type'', JStr (asc ''string''))]"
  have agree: "map_of ?p (asc ''solution_code'') = map_of ?q (asc ''solution_code'')
      \<and> map_of ?p (asc ''answer_type'') = map_of ?q (asc ''answer_type'')"
    by (simp add: asc_def)
  have same: "execute_solution no_lib (\<lambda>code. Completed 0 [] []) (JObj ?p) JNull
      = execute_solution no_lib (\<lambda>code. Completed 0 [] []) (JObj ?q) JNull"
    using execute_solution_reads_code_and_type[of ?p ?q no_lib "\<lambda>code. Completed 0 [] []" JNull]
      agree by blast
  have val: "execute_solution no_lib (\<lambda>code. Completed 0 [] []) (JObj ?q) JNull = Inr (JStr (asc ''7''))"
    by (simp add: execute_solution_def dict_get_def asc_def code_keywords_def startswith_def
        coerce_answer_def)
  show ?thesis using same val by simp
qed

text \<open>
  C10. For a literal answer (a \<open>solution_code\<close> string with none of the code markers)
  and \<open>answer_type\<close> \<open>number\<close>, the commas are removed and the text is trimmed; with a
  decimal point in it the result is \<open>float\<close> of the text, else \<open>int\<close> of it, and the
  raw string when the conversion raises. \<open>1,234.5\<close> gives the float 1234.5 and
  \<open>1,234\<close> the integer 1234. For \<open>answer_type\<close> \<open>boolean\<close> the result is true exactly
  when the lower-cased string is \<open>true\<close>, \<open>yes\<close> or \<open>1\<close>; \<open>Yes\<close> gives true.
\<close>

theorem execute_solution_coercion:
  "(any_keyword_in code_keywords (JStr raw) = Inr False
      \<and> map_of p (asc ''solution_code'') = Some (JStr raw)
      \<and> map_of p (asc ''answer_type'') = Some (JStr (asc ''number''))
      \<longrightarrow> execute_solution L run (JObj p) ctx =
            Inr (let a = strip (replace (asc '','') [] raw) in
                 if str_in (asc ''.'') a
                 then (case py_float L a of Some f \<Rightarrow> JFloat f | None \<Rightarrow> JStr raw)
                 else (case py_int L a of Some i \<Rightarrow> JInt i | None \<Rightarrow> JStr raw)))
   \<and> execute_solution L run
        (JObj [(asc ''answer_type'', JStr (asc ''number'')),
               (asc ''solution_code'', JStr (asc ''1,234.5''))]) ctx
       = Inr (JFloat (Nearest (2469 / 2)))
   \<and> execute_solution L run
        (JObj [(asc ''answer_type'', JStr (asc ''number'')),
               (asc ''solution_code'', JStr (asc ''1,234''))]) ctx
       = Inr (JInt 1234)
   \<and> (any_keyword_in code_keywords (JStr raw) = Inr False
      \<and> map_of p (asc ''solution_code'') = Some (JStr raw)
      \<and> map_of p (asc ''answer_type'') = Some (JStr (asc ''boolean''))
      \<longrightarrow> execute_solution L run (JObj p) ctx =
            Inr (JBool (lower L raw = asc ''true'' \<or> lower L raw = asc ''yes''
                        \<or> lower L raw = asc ''1'')))
   \<and> execute_solution L run
        (JObj [(asc ''answer_type'', JStr (asc ''boolean'')),
               (asc ''solution_code'', JStr (asc ''Yes''))]) ctx
       = Inr (JBool True)"
proof -
  have num: "any_keyword_in code_keywords (JStr raw) = Inr False
      \<and> map_of p (asc ''solution_code'') = Some (JStr raw)
      \<and> map_of p (asc ''answer_type'') = Some (JStr (asc ''number''))
      \<longrightarrow> execute_solution L run (JObj p) ctx =
            Inr (let a = strip (replace (asc '','') [] raw) in
                 if str_in (asc ''.'') a
                 then (case py_float L a of Some f \<Rightarrow> JFloat f | None \<Rightarrow> JStr raw)
                 else (case py_int L a of Some i \<Rightarrow> JInt i | None \<Rightarrow> JStr raw))"
    by (simp add: execute_solution_def dict_get_def coerce_answer_def to_str_def Let_def)
  have ex1: "execute_solution L run
        (JObj [(asc ''answer_type'', JStr (asc ''number'')),
               (asc ''solution_code'', JStr (asc ''1,234.5''))]) ctx
       = Inr (JFloat (Nearest (2469 / 2)))"
    by (simp add: execute_solution_def dict_get_def asc_def code_keywords_def
        startswith_def coerce_answer_def to_str_def strip_def strip_chars_def isspace_def
        py_float_def split_sign_def is_digit_def digits_value_def)
  have ex2: "execute_solution L run
        (JObj [(asc ''answer_type'', JStr (asc ''number'')),
               (asc ''solution_code'', JStr (asc ''1,234''))]) ctx
       = Inr (JInt 1234)"
    by (simp add: execute_solution_def dict_get_def asc_def code_keywords_def
        startswith_def coerce_answer_def to_str_def strip_def strip_chars_def isspace_def
        py_int_def split_sign_def is_digit_def digits_value_def)
  have boolean: "any_keyword_in code_keywords (JStr raw) = Inr False
      \<and> map_of p (asc ''solution_code'') = Some (JStr raw)
      \<and> map_of p (asc ''answer_type'') = Some (JStr (asc ''boolean''))
      \<longrightarrow> execute_solution L run (JObj p) ctx =
            Inr (JBool (lower L raw = asc ''true'' \<or> lower L raw = asc ''yes''
                        \<or> lower L raw = asc ''1''))"
    by (auto simp: execute_solution_def dict_get_def coerce_answer_def asc_def)
  have ex3: "execute_solution L run
        (JObj [(asc ''answer_type'', JStr (asc ''boolean'')),
               (asc ''solution_code'', JStr (asc ''Yes''))]) ctx
       = Inr (JBool True)"
    by (simp add: execute_solution_def dict_get_def asc_def code_keywords_def
        startswith_def coerce_answer_def lower_def ascii_lower_def)
  show ?thesis using num ex1 ex2 boolean ex3 by blast
qed

text \<open>The two rules at the raw strings \<open>-12\<close> and \<open>TRUE\<close>.\<close>

theorem execute_solution_coercion_witness:
  "execute_solution no_lib (\<lambda>code. Completed 0 [] [])
      (JObj [(asc ''solution_code'', JStr (asc ''-12'')),
             (asc ''answer_type'', JStr (asc ''number''))]) JNull = Inr (JInt (- 12))
   \<and> execute_solution no_lib (\<lambda>code. Completed 0 [] [])
      (JObj [(asc ''solution_code'', JStr (asc ''TRUE'')),
             (asc ''answer_type'', JStr (asc ''boolean''))]) JNull = Inr (JBool True)"
proof -
  let ?run = "\<lambda>code::str. Completed 0 [] []"
  let ?p = "[(asc ''solution_code'', JStr (asc ''-12'')), (asc ''answer_type'', JStr (asc ''number''))]"
  let ?q = "[(asc ''solution_code'', JStr (asc ''TRUE'')), (asc ''answer_type'', JStr (asc ''boolean''))]"
  have hp: "any_keyword_in code_keywords (JStr (asc ''-12'')) = Inr False
      \<and> map_of ?p (asc ''solution_code'') = Some (JStr (asc ''-12''))
      \<and> map_of ?p (asc ''answer_type'') = Some (JStr (asc ''number''))"
    by (simp add: asc_def code_keywords_def startswith_def)
  have hq: "any_keyword_in code_keywords (JStr (asc ''TRUE'')) = Inr False
      \<and> map_of ?q (asc ''solution_code'') = Some (JStr (asc ''TRUE''))
      \<and> map_of ?q (asc ''answer_type'') = Some (JStr (asc ''boolean''))"
    by (simp add: asc_def code_keywords_def startswith_def)
  have n: "execute_solution no_lib ?run (JObj ?p) JNull =
            Inr (let a = strip (replace (asc '','') [] (asc ''-12'')) in
                 if str_in (asc ''.'') a
                 then (case py_float no_lib a of Some f \<Rightarrow> JFloat f | None \<Rightarrow> JStr (asc ''-12''))
                 else (case py_int no_lib a of Some i \<Rightarrow> JInt i | None \<Rightarrow> JStr (asc ''-12'')))"
    using execute_solution_coercion[of "asc ''-12''" ?p no_lib ?run JNull] hp by blast
  have b: "execute_solution no_lib ?run (JObj ?q) JNull =
            Inr (JBool (lower no_lib (asc ''TRUE'') = asc ''true'' \<or> lower no_lib (asc ''TRUE'') = asc ''yes''
                        \<or> lower no_lib (asc ''TRUE'') = asc ''1''))"
    using execute_solution_coercion[of "asc ''TRUE''" ?q no_lib ?run JNull] hq by blast
  have n': "execute_solution no_lib ?run (JObj ?p) JNull = Inr (JInt (- 12))"
    unfolding n
    by (simp add: asc_def startswith_def strip_def strip_chars_def isspace_def
        py_int_def split_sign_def is_digit_def digits_value_def)
  have b': "execute_solution no_lib ?run (JObj ?q) JNull = Inr (JBool True)"
    unfolding b by (simp add: asc_def lower_def ascii_lower_def)
  show ?thesis using n' b' by simp
qed


subsection \<open>The resource links of a page\<close>

lemma set_append_new: "set (append_new u us) = insert u (set us)"
  by (auto simp: append_new_def)

lemma set_foldl_step:
  assumes "\<And>acc x. set (step acc x) = set acc \<union> C x"
  shows "set (foldl step acc xs) = set acc \<union> (\<Union>x\<in>set xs. C x)"
  by (induction xs arbitrary: acc) (auto simp: assms)

lemma set_source_step:
  "set (source_step L b fu s) = set fu \<union> {resolve L b src | src. get_truthy s (asc ''src'') = Some src}"
  by (auto simp: source_step_def set_append_new split: option.splits)

lemma set_video_step:
  "set (video_step L b fu v) = set fu \<union> {resolve L b src | src. get_truthy v (asc ''src'') = Some src}"
  by (auto simp: video_step_def set_append_new split: option.splits)

lemma set_link_step:
  "set (link_step L b fu l) = set fu \<union> {resolve L b h | h. get_attr l (asc ''href'') = Some h \<and> has_extension L (resolve L b h)}"
  by (auto simp: link_step_def set_append_new Let_def split: option.splits)

lemma set_audio_step:
  "set (audio_step L b fu a) = set fu
     \<union> ({resolve L b src | src. get_truthy a (asc ''src'') = Some src}
        \<union> (\<Union>s\<in>set (find_all (asc ''source'') a). {resolve L b src | src. get_truthy s (asc ''src'') = Some src}))"
  unfolding audio_step_def
  by (subst set_foldl_step[where C = "\<lambda>s. {resolve L b src | src. get_truthy s (asc ''src'') = Some src}"])
     (auto simp: set_source_step split: option.splits)

lemma set_discovered_urls:
  "set (discovered_urls L soup b) =
     (let S = decompose_all [asc ''script'', asc ''style''] soup in
      {resolve L b src | src a. a \<in> set (find_all (asc ''audio'') S) \<and> get_truthy a (asc ''src'') = Some src}
    \<union> {resolve L b src | src a s. a \<in> set (find_all (asc ''audio'') S) \<and> s \<in> set (find_all (asc ''source'') a)
                                  \<and> get_truthy s (asc ''src'') = Some src}
    \<union> {resolve L b h | h l. l \<in> set (find_all (asc ''a'') S) \<and> get_attr l (asc ''href'') = Some h
                             \<and> has_extension L (resolve L b h)}
    \<union> {resolve L b src | src v. v \<in> set (find_all (asc ''video'') S) \<and> get_truthy v (asc ''src'') = Some src})"
proof -
  define S where "S = decompose_all [asc ''script'', asc ''style''] soup"
  define A where "A = foldl (audio_step L b) [] (find_all (asc ''audio'') S)"
  define K where "K = foldl (link_step L b) A (find_all (asc ''a'') S)"
  have a: "set A = (\<Union>a\<in>set (find_all (asc ''audio'') S).
              {resolve L b src | src. get_truthy a (asc ''src'') = Some src}
        \<union> (\<Union>s\<in>set (find_all (asc ''source'') a). {resolve L b src | src. get_truthy s (asc ''src'') = Some src}))"
    unfolding A_def
    by (subst set_foldl_step[where C = "\<lambda>a. {resolve L b src | src. get_truthy a (asc ''src'') = Some src}
        \<union> (\<Union>s\<in>set (find_all (asc ''source'') a). {resolve L b src | src. get_truthy s (asc ''src'') = Some src})"])
       (simp_all add: set_audio_step)
  have k: "set K = set A \<union> (\<Union>l\<in>set (find_all (asc ''a'') S).
              {resolve L b h | h. get_attr l (asc ''href'') = Some h \<and> has_extension L (resolve L b h)})"
    unfolding K_def
    by (rule set_foldl_step) (rule set_link_step)
  have v: "set (foldl (video_step L b) K (find_all (asc ''video'') S)) = set K \<union> (\<Union>v\<in>set (find_all (asc ''video'') S).
              {resolve L b src | src. get_truthy v (asc ''src'') = Some src})"
    by (rule set_foldl_step) (rule set_video_step)
  have d: "discovered_urls L soup b = foldl (video_step L b) K (find_all (asc ''video'') S)"
    by (simp add: discovered_urls_def K_def A_def S_def Let_def)
  show ?thesis
    unfolding d v k a Let_def S_def[symmetric] by blast
qed





lemma unique_urls_snoc: "unique_urls (xs @ [x]) = append_new x (unique_urls xs)"
  by (simp add: unique_urls_def)

lemma set_unique_urls: "set (unique_urls xs) = set xs"
  by (induction xs rule: rev_induct) (simp_all add: unique_urls_snoc set_append_new, simp add: unique_urls_def)



text \<open>
  An anchor whose link has the extension before a query string is collected, whatever
  the library and the base URL: the link is absolute and ASCII.
\<close>

lemma anchor_with_query_collected:
  "parse_question_file_urls L
      (Tag (asc ''[document]'') []
         [Tag (asc ''a'') [(asc ''href'', asc ''https://x.test/report.pdf?download=1'')] []]) b
     = [asc ''https://x.test/report.pdf?download=1'']"
  by (simp add: parse_question_file_urls_def discovered_urls_def unique_urls_def find_all_def
      link_step_def has_extension_def get_truthy_def resolve_def append_new_def
      all_extensions_def audio_extensions_def file_extensions_def
      lower_def ascii_lower_def asc_def startswith_def)

text \<open>
  C8. The claim: links come from \<open>audio\<close> tags (their \<open>src\<close> and their \<open>source\<close>
  children), \<open>video\<close> tags and \<open>a\<close> tags, and an \<open>a\<close> tag's link is collected only when
  it ends with a recognized extension. The code tests \<open>ext in href.lower()\<close>, a
  substring test: a link with the extension in the middle is collected too.
\<close>

theorem parse_question_anchor_counterexample:
  "parse_question_file_urls no_lib
      (Tag (asc ''[document]'') []
         [Tag (asc ''a'') [(asc ''href'', asc ''https://x.test/report.pdf?download=1'')] []])
      (asc ''https://x.test/q'')
     = [asc ''https://x.test/report.pdf?download=1'']
   \<and> \<not> list_ex (endswith (asc ''https://x.test/report.pdf?download=1'')) all_extensions"
  by (simp add: parse_question_file_urls_def discovered_urls_def unique_urls_def find_all_def
      link_step_def has_extension_def get_truthy_def resolve_def append_new_def
      all_extensions_def audio_extensions_def file_extensions_def
      lower_def ascii_lower_def asc_def startswith_def endswith_def)

text \<open>
  C8, as amended: the links of the question record are exactly the resolved \<open>src\<close> of
  the \<open>audio\<close> tags, of the \<open>source\<close> tags inside them and of the \<open>video\<close> tags, and the
  resolved \<open>href\<close> of the \<open>a\<close> tags whose resolved and lower-cased link contains one of
  the recognized extensions; the tags are those of the page outside \<open>script\<close> and
  \<open>style\<close>.
\<close>

theorem parse_question_file_urls_sources:
  "set (parse_question_file_urls L soup b) =
     (let S = decompose_all [asc ''script'', asc ''style''] soup in
      {resolve L b src | src a. a \<in> set (find_all (asc ''audio'') S) \<and> get_truthy a (asc ''src'') = Some src}
    \<union> {resolve L b src | src a s. a \<in> set (find_all (asc ''audio'') S) \<and> s \<in> set (find_all (asc ''source'') a)
                                  \<and> get_truthy s (asc ''src'') = Some src}
    \<union> {resolve L b h | h l. l \<in> set (find_all (asc ''a'') S) \<and> get_attr l (asc ''href'') = Some h
                             \<and> has_extension L (resolve L b h)}
    \<union> {resolve L b src | src v. v \<in> set (find_all (asc ''video'') S) \<and> get_truthy v (asc ''src'') = Some src})"
  by (simp only: parse_question_file_urls_def set_unique_urls set_discovered_urls)

subsection \<open>Resolved links and absolute URLs\<close>








subsection \<open>Downloading the resources\<close>

lemma store_response_not_failed: "\<not> is_failed (store_response D L url ct content)"
  by (simp add: store_response_def parse_pdf_method_def split: sum.splits)

lemma attempt_loop_gets_le: "gets (attempt_loop D L get url as st) \<le> gets st + length as"
proof (induction as arbitrary: st)
  case Nil
  then show ?case by simp
next
  case (Cons a as)
  show ?case
  proof (cases "get a")
    case (Response status_code content_type content)
    then show ?thesis
      using Cons[of "st\<lparr>gets := Suc (gets st), last_error := Some (asc ''HTTP '' @ str_of_nat status_code)\<rparr>"]
            Cons[of "st\<lparr>gets := Suc (gets st), last_error := Some (asc ''Empty response'')\<rparr>"]
      by (simp add: Let_def)
  next
    case GetTimeout
    then show ?thesis
      using Cons[of "st\<lparr>gets := Suc (gets st), last_error := Some (asc ''Timeout'')\<rparr>"] by (simp add: Let_def)
  next
    case (GetRaised m)
    then show ?thesis
      using Cons[of "st\<lparr>gets := Suc (gets st), last_error := Some m\<rparr>"] by (simp add: Let_def)
  qed
qed

lemma attempt_loop_fail_step:
  "attempt_fails (get a) \<Longrightarrow>
   attempt_loop D L get url (a # as) st
     = attempt_loop D L get url as (st\<lparr>gets := Suc (gets st), last_error := Some (attempt_error (get a))\<rparr>)"
  by (cases "get a") (simp_all add: Let_def)

lemma attempt_loop_success_step:
  "get a = Response 200 ct content \<Longrightarrow> content \<noteq> [] \<Longrightarrow>
   attempt_loop D L get url (a # as) st
     = st\<lparr>gets := Suc (gets st), entry := Some (store_response D L url ct content)\<rparr>"
  by (simp add: Let_def)

lemma upt3: "[0..<max_retries + 1] = [0, 1, 2]"
  by (simp add: max_retries_def upt_rec)

lemma download_one_gets_le: "gets (download_one D L get url) \<le> 3"
proof -
  have "gets (attempt_loop D L get url [0..<max_retries + 1] \<lparr>entry = None, last_error = None, gets = 0\<rparr>) \<le> 3"
    using attempt_loop_gets_le[of D L get url "[0..<max_retries + 1]" "\<lparr>entry = None, last_error = None, gets = 0\<rparr>"]
    by (simp add: max_retries_def)
  then show ?thesis by (simp add: download_one_def Let_def split: option.splits)
qed

lemma download_one_first:
  "get 0 = Response 200 ct content \<Longrightarrow> content \<noteq> [] \<Longrightarrow>
   download_one D L get url = \<lparr>entry = Some (store_response D L url ct content), last_error = None, gets = 1\<rparr>"
  unfolding download_one_def upt3
  by (simp add: attempt_loop_success_step[of get _ ct content] del: attempt_loop.simps(2))

lemma download_one_second:
  "attempt_fails (get 0) \<Longrightarrow> get 1 = Response 200 ct content \<Longrightarrow> content \<noteq> [] \<Longrightarrow>
   download_one D L get url = \<lparr>entry = Some (store_response D L url ct content),
                               last_error = Some (attempt_error (get 0)), gets = 2\<rparr>"
  unfolding download_one_def upt3
  by (simp add: attempt_loop_fail_step attempt_loop_success_step[of get _ ct content]
      del: attempt_loop.simps(2))

lemma download_one_third:
  "attempt_fails (get 0) \<Longrightarrow> attempt_fails (get 1) \<Longrightarrow> get 2 = Response 200 ct content \<Longrightarrow> content \<noteq> [] \<Longrightarrow>
   download_one D L get url = \<lparr>entry = Some (store_response D L url ct content),
                               last_error = Some (attempt_error (get 1)), gets = 3\<rparr>"
  unfolding download_one_def upt3
  by (simp add: attempt_loop_fail_step attempt_loop_success_step[of get _ ct content]
      del: attempt_loop.simps(2))

lemma download_one_exhausted:
  "attempt_fails (get 0) \<Longrightarrow> attempt_fails (get 1) \<Longrightarrow> attempt_fails (get 2) \<Longrightarrow>
   download_one D L get url = \<lparr>entry = Some (Failed (Some (attempt_error (get 2))) 3),
                               last_error = Some (attempt_error (get 2)), gets = 3\<rparr>"
  unfolding download_one_def upt3
  by (simp add: attempt_loop_fail_step max_retries_def del: attempt_loop.simps(2))

lemma entry_download_one: "\<exists>p. entry (download_one D L get url) = Some p"
  by (simp add: download_one_def Let_def split: option.splits)

lemma download_files_snoc:
  "download_files D L get (urls @ [url])
     = (download_files D L get urls)(url := entry (download_one D L (get (length urls) url) url))"
proof -
  have "zip [0..<length (urls @ [url])] (urls @ [url]) = zip [0..<length urls] urls @ [(length urls, url)]"
    by simp
  then show ?thesis by (simp add: download_files_def)
qed

lemma dom_download_files: "dom (download_files D L get urls) = set urls"
proof (induction urls rule: rev_induct)
  case Nil
  then show ?case by (simp add: download_files_def)
next
  case (snoc url urls)
  obtain p where "entry (download_one D L (get (length urls) url) url) = Some p"
    using entry_download_one by blast
  then have "dom (download_files D L get (urls @ [url])) = insert url (dom (download_files D L get urls))"
    by (simp only: download_files_snoc dom_fun_upd) simp
  with snoc show ?case by simp
qed

lemma download_files_nth:
  "distinct urls \<Longrightarrow> i < length urls \<Longrightarrow>
   download_files D L get urls (urls ! i) = entry (download_one D L (get i (urls ! i)) (urls ! i))"
proof (induction urls rule: rev_induct)
  case Nil
  then show ?case by simp
next
  case (snoc url urls)
  show ?case
  proof (cases "i < length urls")
    case True
    with snoc.prems have "urls ! i \<noteq> url" by auto
    with snoc True show ?thesis by (simp add: download_files_snoc nth_append)
  next
    case False
    with snoc.prems have "i = length urls" by simp
    then show ?thesis by (simp add: download_files_snoc)
  qed
qed

lemma download_one_gets:
  "gets (download_one D L get url)
     = (if \<not> attempt_fails (get 0) then 1 else if \<not> attempt_fails (get 1) then 2 else 3)"
proof (cases "attempt_fails (get 0)")
  case False
  then obtain ct content where "get 0 = Response 200 ct content" "content \<noteq> []"
    by (cases "get 0") auto
  with False show ?thesis by (simp add: download_one_first)
next
  case f0: True
  show ?thesis
  proof (cases "attempt_fails (get 1)")
    case False
    then obtain ct content where "get 1 = Response 200 ct content" "content \<noteq> []"
      by (cases "get 1") auto
    with f0 False show ?thesis by (simp add: download_one_second)
  next
    case f1: True
    show ?thesis
    proof (cases "attempt_fails (get 2)")
      case False
      then obtain ct content where "get 2 = Response 200 ct content" "content \<noteq> []"
        by (cases "get 2") auto
      with f0 f1 show ?thesis by (simp add: download_one_third)
    next
      case True
      with f0 f1 show ?thesis by (simp add: download_one_exhausted)
    qed
  qed
qed

lemma store_response_neq_failed: "store_response D L url ct content \<noteq> Failed e n"
  using store_response_not_failed[of D L url ct content] by (cases "store_response D L url ct content") auto

lemma download_files_last:
  "i < length urls \<Longrightarrow> urls ! i \<notin> set (drop (Suc i) urls) \<Longrightarrow>
   download_files D L get urls (urls ! i) = entry (download_one D L (get i (urls ! i)) (urls ! i))"
proof (induction urls rule: rev_induct)
  case Nil
  then show ?case by simp
next
  case (snoc url urls)
  show ?case
  proof (cases "i < length urls")
    case True
    with snoc.prems(2) have n: "urls ! i \<noteq> url" "urls ! i \<notin> set (drop (Suc i) urls)"
      by (auto simp: nth_append)
    with snoc.IH[OF True n(2)] True show ?thesis
      by (simp add: download_files_snoc nth_append)
  next
    case False
    with snoc.prems have "i = length urls" by simp
    then show ?thesis by (simp add: download_files_snoc)
  qed
qed

text \<open>
  C7. One URL takes at most three requests: one, and one more after each attempt that
  fails (a status other than 200, an empty body, a timeout or another exception), up to
  three. The first attempt that answers status 200 with a body, be it the first, the
  second or the third, stores the entry of that response, which is never the entry of
  type \<open>error\<close>; in particular status 500 twice and then status 200 with a body does.
  Three failed attempts store the entry of type \<open>error\<close> with the error of the third
  attempt (\<open>HTTP 500\<close>, \<open>Empty response\<close>, \<open>Timeout\<close> or the message of the
  exception) and \<open>attempts = 3\<close>. Every URL of the list gets an entry, and the entry
  of a URL depends on the outcomes of the attempts of its last occurrence only.
\<close>

theorem download_files_retry_policy:
  "gets (download_one D L get url) \<le> 3
   \<and> gets (download_one D L get url)
       = (if \<not> attempt_fails (get 0) then 1 else if \<not> attempt_fails (get 1) then 2 else 3)
   \<and> (attempt_fails (Response status_code ctype body) = (status_code \<noteq> 200 \<or> body = []))
   \<and> attempt_fails GetTimeout \<and> attempt_fails (GetRaised m)
   \<and> attempt_error (Response 500 ctype body) = asc ''HTTP 500''
   \<and> attempt_error (Response 200 ctype []) = asc ''Empty response''
   \<and> attempt_error GetTimeout = asc ''Timeout'' \<and> attempt_error (GetRaised m) = m
   \<and> (get 0 = Response 200 ct content \<and> content \<noteq> []
       \<longrightarrow> entry (download_one D L get url) = Some (store_response D L url ct content))
   \<and> (attempt_fails (get 0) \<and> get 1 = Response 200 ct content \<and> content \<noteq> []
       \<longrightarrow> entry (download_one D L get url) = Some (store_response D L url ct content))
   \<and> (attempt_fails (get 0) \<and> attempt_fails (get 1) \<and> get 2 = Response 200 ct content \<and> content \<noteq> []
       \<longrightarrow> entry (download_one D L get url) = Some (store_response D L url ct content))
   \<and> (get 0 = Response 500 cta ca \<and> get 1 = Response 500 ctb cb
        \<and> get 2 = Response 200 ct content \<and> content \<noteq> []
       \<longrightarrow> entry (download_one D L get url) = Some (store_response D L url ct content)
           \<and> \<not> is_failed (store_response D L url ct content))
   \<and> store_response D L url ct content \<noteq> Failed e n
   \<and> (attempt_fails (get 0) \<and> attempt_fails (get 1) \<and> attempt_fails (get 2)
       \<longrightarrow> entry (download_one D L get url) = Some (Failed (Some (attempt_error (get 2))) 3))
   \<and> dom (download_files D L batch urls) = set urls
   \<and> (distinct urls \<and> i < length urls
       \<longrightarrow> download_files D L batch urls (urls ! i)
             = entry (download_one D L (batch i (urls ! i)) (urls ! i)))
   \<and> (i < length urls \<and> urls ! i \<notin> set (drop (Suc i) urls)
       \<longrightarrow> download_files D L batch urls (urls ! i)
             = entry (download_one D L (batch i (urls ! i)) (urls ! i)))"
proof -
  have g: "gets (download_one D L get url) \<le> 3
   \<and> gets (download_one D L get url)
       = (if \<not> attempt_fails (get 0) then 1 else if \<not> attempt_fails (get 1) then 2 else 3)"
    using download_one_gets_le[of D L get url] download_one_gets[of D L get url] by simp
  have f: "(attempt_fails (Response status_code ctype body) = (status_code \<noteq> 200 \<or> body = []))
   \<and> attempt_fails GetTimeout \<and> attempt_fails (GetRaised m)
   \<and> attempt_error (Response 500 ctype body) = asc ''HTTP 500''
   \<and> attempt_error (Response 200 ctype []) = asc ''Empty response''
   \<and> attempt_error GetTimeout = asc ''Timeout'' \<and> attempt_error (GetRaised m) = m"
    by (simp add: str_of_nat.simps asc_def)
  have s1: "get 0 = Response 200 ct content \<and> content \<noteq> []
       \<longrightarrow> entry (download_one D L get url) = Some (store_response D L url ct content)"
    using download_one_first[of get ct content D L url] by auto
  have s2: "attempt_fails (get 0) \<and> get 1 = Response 200 ct content \<and> content \<noteq> []
       \<longrightarrow> entry (download_one D L get url) = Some (store_response D L url ct content)"
    using download_one_second[of get ct content D L url] by auto
  have s3: "attempt_fails (get 0) \<and> attempt_fails (get 1) \<and> get 2 = Response 200 ct content \<and> content \<noteq> []
       \<longrightarrow> entry (download_one D L get url) = Some (store_response D L url ct content)"
    using download_one_third[of get ct content D L url] by auto
  have a: "get 0 = Response 500 cta ca \<and> get 1 = Response 500 ctb cb
        \<and> get 2 = Response 200 ct content \<and> content \<noteq> []
       \<longrightarrow> entry (download_one D L get url) = Some (store_response D L url ct content)
           \<and> \<not> is_failed (store_response D L url ct content)"
    using download_one_third[of get ct content D L url] store_response_not_failed[of D L url ct content]
    by auto
  have b: "attempt_fails (get 0) \<and> attempt_fails (get 1) \<and> attempt_fails (get 2)
       \<longrightarrow> entry (download_one D L get url) = Some (Failed (Some (attempt_error (get 2))) 3)"
    using download_one_exhausted[of get D L url] by auto
  have c: "distinct urls \<and> i < length urls
       \<longrightarrow> download_files D L batch urls (urls ! i)
             = entry (download_one D L (batch i (urls ! i)) (urls ! i))"
    using download_files_nth[of urls i D L batch] by blast
  have c2: "i < length urls \<and> urls ! i \<notin> set (drop (Suc i) urls)
       \<longrightarrow> download_files D L batch urls (urls ! i)
             = entry (download_one D L (batch i (urls ! i)) (urls ! i))"
    using download_files_last[of i urls D L batch] by blast
  from g f s1 s2 s3 a b c c2 store_response_neq_failed[of D L url ct content e n]
    dom_download_files[of D L batch urls]
  show ?thesis by (intro conjI) blast+
qed

text \<open>
  Two URLs: every attempt on the first gives status 500; the second gives status 500
  twice and then a text body. A URL that answers status 200 with a body at once is
  stored after one request, and one that times out once is stored from the second
  attempt.
\<close>

theorem download_files_retry_policy_witness:
  "download_files two_page_decoders no_lib
      (\<lambda>i url n. if i = 0 \<or> n < 2 then Response 500 [] [] else Response 200 (asc ''text/plain'') (asc ''hi''))
      [asc ''https://x.test/a.txt'', asc ''https://x.test/b.txt''] (asc ''https://x.test/a.txt'')
     = Some (Failed (Some (asc ''HTTP 500'')) 3)
   \<and> download_files two_page_decoders no_lib
      (\<lambda>i url n. if i = 0 \<or> n < 2 then Response 500 [] [] else Response 200 (asc ''text/plain'') (asc ''hi''))
      [asc ''https://x.test/a.txt'', asc ''https://x.test/b.txt''] (asc ''https://x.test/b.txt'')
     = Some (Binary [] 2)
   \<and> download_files two_page_decoders no_lib
      (\<lambda>i url n. Response 200 (asc ''text/plain'') (asc ''hi''))
      [asc ''https://x.test/c.txt''] (asc ''https://x.test/c.txt'')
     = Some (Binary [] 2)
   \<and> gets (download_one two_page_decoders no_lib
      (\<lambda>n. Response 200 (asc ''text/plain'') (asc ''hi'')) (asc ''https://x.test/c.txt'')) = 1
   \<and> download_files two_page_decoders no_lib
      (\<lambda>i url n. if n = 0 then GetTimeout else Response 200 (asc ''text/plain'') (asc ''hi''))
      [asc ''https://x.test/c.txt''] (asc ''https://x.test/c.txt'')
     = Some (Binary [] 2)"
proof -
  let ?batch = "\<lambda>(i::nat) (url::str) (n::nat). if i = 0 \<or> n < 2 then Response 500 [] []
                  else Response 200 (asc ''text/plain'') (asc ''hi'')"
  let ?urls = "[asc ''https://x.test/a.txt'', asc ''https://x.test/b.txt'']"
  let ?a = "asc ''https://x.test/a.txt''"
  let ?b = "asc ''https://x.test/b.txt''"
  let ?c = "asc ''https://x.test/c.txt''"
  let ?ok = "\<lambda>(n::nat). Response 200 (asc ''text/plain'') (asc ''hi'')"
  let ?late = "\<lambda>(n::nat). if n = 0 then GetTimeout else Response 200 (asc ''text/plain'') (asc ''hi'')"
  have d: "distinct ?urls" by (simp add: asc_def)
  have fa: "attempt_fails (?batch 0 ?a 0) \<and> attempt_fails (?batch 0 ?a 1) \<and> attempt_fails (?batch 0 ?a 2)"
    by simp
  have ea: "entry (download_one two_page_decoders no_lib (?batch 0 ?a) ?a)
      = Some (Failed (Some (attempt_error (?batch 0 ?a 2))) 3)"
    using download_files_retry_policy[where D = two_page_decoders and L = no_lib
        and get = "?batch 0 ?a" and url = ?a] fa by blast
  have na: "download_files two_page_decoders no_lib ?batch ?urls (?urls ! 0)
      = entry (download_one two_page_decoders no_lib (?batch 0 (?urls ! 0)) (?urls ! 0))"
    using download_files_retry_policy[where D = two_page_decoders and L = no_lib
        and batch = ?batch and urls = ?urls and i = 0] d
    by simp
  have fb: "?batch 1 ?b 0 = Response 500 [] [] \<and> ?batch 1 ?b 1 = Response 500 [] []
      \<and> ?batch 1 ?b 2 = Response 200 (asc ''text/plain'') (asc ''hi'') \<and> asc ''hi'' \<noteq> []"
    by (simp add: asc_def)
  have eb: "entry (download_one two_page_decoders no_lib (?batch 1 ?b) ?b)
      = Some (store_response two_page_decoders no_lib ?b (asc ''text/plain'') (asc ''hi''))"
    using download_files_retry_policy[where D = two_page_decoders and L = no_lib
        and get = "?batch 1 ?b" and url = ?b and cta = "[]" and ca = "[]" and ctb = "[]" and cb = "[]"
        and ct = "asc ''text/plain''" and content = "asc ''hi''"] fb by blast
  have nb: "download_files two_page_decoders no_lib ?batch ?urls (?urls ! 1)
      = entry (download_one two_page_decoders no_lib (?batch 1 (?urls ! 1)) (?urls ! 1))"
    using download_files_retry_policy[where D = two_page_decoders and L = no_lib
        and batch = ?batch and urls = ?urls and i = 1] d
    by simp
  have sb: "store_response two_page_decoders no_lib ?b (asc ''text/plain'') (asc ''hi'') = Binary [] 2"
    by (simp add: store_response_def two_page_decoders_def audio_extensions_def lower_def
        ascii_lower_def asc_def startswith_def endswith_def)
  have sc: "store_response two_page_decoders no_lib ?c (asc ''text/plain'') (asc ''hi'') = Binary [] 2"
    by (simp add: store_response_def two_page_decoders_def audio_extensions_def lower_def
        ascii_lower_def asc_def startswith_def endswith_def)
  have err: "attempt_error (?batch 0 ?a 2) = asc ''HTTP 500''"
    by (simp add: asc_def str_of_nat.simps)
  have ne: "asc ''hi'' \<noteq> []" by (simp add: asc_def)
  have ec: "entry (download_one two_page_decoders no_lib ?ok ?c)
      = Some (store_response two_page_decoders no_lib ?c (asc ''text/plain'') (asc ''hi''))"
    using download_files_retry_policy[where D = two_page_decoders and L = no_lib
        and get = ?ok and url = ?c and ct = "asc ''text/plain''" and content = "asc ''hi''"] ne
    by blast
  have gc: "gets (download_one two_page_decoders no_lib ?ok ?c) = 1"
    using download_files_retry_policy[where D = two_page_decoders and L = no_lib
        and get = ?ok and url = ?c] ne by simp
  have nc: "download_files two_page_decoders no_lib (\<lambda>i url. ?ok) [?c] ([?c] ! 0)
      = entry (download_one two_page_decoders no_lib ?ok ([?c] ! 0))"
    using download_files_retry_policy[where D = two_page_decoders and L = no_lib
        and batch = "\<lambda>i url. ?ok" and urls = "[?c]" and i = 0]
    by simp
  have fl: "attempt_fails (?late 0) \<and> ?late 1 = Response 200 (asc ''text/plain'') (asc ''hi'')"
    by simp
  have el: "entry (download_one two_page_decoders no_lib ?late ?c)
      = Some (store_response two_page_decoders no_lib ?c (asc ''text/plain'') (asc ''hi''))"
    using download_files_retry_policy[where D = two_page_decoders and L = no_lib
        and get = ?late and url = ?c and ct = "asc ''text/plain''" and content = "asc ''hi''"] ne fl
    by blast
  have nl: "download_files two_page_decoders no_lib (\<lambda>i url. ?late) [?c] ([?c] ! 0)
      = entry (download_one two_page_decoders no_lib ?late ([?c] ! 0))"
    using download_files_retry_policy[where D = two_page_decoders and L = no_lib
        and batch = "\<lambda>i url. ?late" and urls = "[?c]" and i = 0]
    by simp
  show ?thesis using ea na eb nb sb err ec gc nc sc el nl by simp
qed

text \<open>
  C4. The claim: a downloaded resource classified as a PDF is decoded into a document
  entry with the page count and the pages. \<open>_parse_pdf\<close> does that for bytes the reader
  accepts, but \<open>download_files\<close> calls \<open>self.parse_pdf\<close>, a name the object does not
  have: the \<open>AttributeError\<close> is caught and every resource that reaches the PDF branch
  is stored as an entry with an \<open>error\<close> key.
\<close>

theorem pdf_response_stored_as_error:
  "(\<not> list_ex (\<lambda>ext. str_in ext (lower L url)) audio_extensions
      \<and> \<not> (str_in (asc ''csv'') content_type \<or> endswith (lower L url) (asc ''.csv''))
      \<and> (str_in (asc ''pdf'') content_type \<or> endswith (lower L url) (asc ''.pdf''))
     \<longrightarrow> store_response D L url content_type content
           = PdfError ([39] @ asc ''QuizSolver'' @ [39] @ asc '' object has no attribute ''
                       @ [39] @ asc ''parse_pdf'' @ [39]))
   \<and> (pdf_pages D content = Inr texts
     \<longrightarrow> parse_pdf_method D content = Pdf (length texts) (zip [1..<Suc (length texts)] texts))"
  by (simp add: store_response_def quiz_solver_attributes_def no_attribute_def parse_pdf_method_def)

text \<open>
  A PDF of two pages at \<open>https://x.test/doc.pdf\<close>, served with status 200 and the
  content type \<open>application/pdf\<close>.
\<close>

theorem pdf_response_stored_as_error_witness:
  "store_response two_page_decoders no_lib (asc ''https://x.test/doc.pdf'') (asc ''application/pdf'')
      (asc ''%PDF-1.4'')
     = PdfError ([39] @ asc ''QuizSolver'' @ [39] @ asc '' object has no attribute ''
                 @ [39] @ asc ''parse_pdf'' @ [39])
   \<and> parse_pdf_method two_page_decoders (asc ''%PDF-1.4'')
     = Pdf 2 [(1, asc ''page one''), (2, asc ''page two'')]"
proof -
  let ?url = "asc ''https://x.test/doc.pdf''"
  have h: "\<not> list_ex (\<lambda>ext. str_in ext (lower no_lib ?url)) audio_extensions
      \<and> \<not> (str_in (asc ''csv'') (asc ''application/pdf'') \<or> endswith (lower no_lib ?url) (asc ''.csv''))
      \<and> (str_in (asc ''pdf'') (asc ''application/pdf'') \<or> endswith (lower no_lib ?url) (asc ''.pdf''))"
    by (simp add: audio_extensions_def lower_def ascii_lower_def asc_def startswith_def endswith_def)
  have p: "pdf_pages two_page_decoders (asc ''%PDF-1.4'') = Inr [asc ''page one'', asc ''page two'']"
    by (simp add: two_page_decoders_def)
  have "store_response two_page_decoders no_lib ?url (asc ''application/pdf'') (asc ''%PDF-1.4'')
     = PdfError ([39] @ asc ''QuizSolver'' @ [39] @ asc '' object has no attribute ''
                 @ [39] @ asc ''parse_pdf'' @ [39])
   \<and> parse_pdf_method two_page_decoders (asc ''%PDF-1.4'')
     = Pdf (length [asc ''page one'', asc ''page two''])
         (zip [1..<Suc (length [asc ''page one'', asc ''page two''])] [asc ''page one'', asc ''page two''])"
    using pdf_response_stored_as_error[of no_lib ?url "asc ''application/pdf''" two_page_decoders
        "asc ''%PDF-1.4''" "[asc ''page one'', asc ''page two'']"] h p by blast
  then show ?thesis by (simp add: upt_rec)
qed


subsection \<open>The chain and the task status\<close>

lemma base_url_of_defaults:
  "base_url_of L JNull = Inr (asc ''https://tds-llm-analysis.s-anand.net'')"
  "map_of d (asc ''quiz_url'') = None
   \<Longrightarrow> base_url_of L (JObj d) = Inr (asc ''https://tds-llm-analysis.s-anand.net'')"
  by (simp_all add: base_url_of_def dict_get_def)

lemma execute_python_solution_context:
  "base_url_of L c = Inr b \<Longrightarrow> base_url_of L c' = Inr b'
   \<Longrightarrow> execute_python_solution L run solution_code c = execute_python_solution L run solution_code c'"
  by (simp add: execute_python_solution_def)

lemma execute_solution_context:
  "base_url_of L c = Inr b \<Longrightarrow> base_url_of L c' = Inr b'
   \<Longrightarrow> execute_solution L run solution c = execute_solution L run solution c'"
  by (cases solution)
     (auto simp: execute_solution_def Let_def execute_python_solution_context[of L c b c' b']
           split: sum.splits)

lemma chain_loop_never_raises: "chain_loop fuel L D W ts url n seen \<noteq> Some (Inl e)"
  by (induction fuel arbitrary: url n seen) (auto simp: Let_def split: sum.splits option.splits)

lemma execute_solution_nonzero_exit:
  "any_keyword_in code_keywords (JStr code) = Inr True \<Longrightarrow> map_of p (asc ''solution_code'') = Some (JStr code)
   \<Longrightarrow> run code = Completed rc out err \<Longrightarrow> rc \<noteq> 0 \<Longrightarrow> base_url_of L ctx = Inr b
   \<Longrightarrow> execute_solution L run (JObj p) ctx
        = Inl (RuntimeError (asc ''Subprocess execution failed: '' @ (if err \<noteq> [] then err else out)))"
  by (simp add: execute_solution_def dict_get_def execute_python_solution_def)

lemma solve_single_question_execution_error:
  "quiz_url \<noteq> [] \<Longrightarrow> fetch_quiz_page Q quiz_url = Inr page_content \<Longrightarrow> page_content \<noteq> []
   \<Longrightarrow> llm_reply Q = Inr reply
   \<Longrightarrow> execute_solution L (run_script Q) (process_llm_response L reply) JNull = Inl e
   \<Longrightarrow> solve_single_question L D Q quiz_url = Inl e"
proof -
  assume h: "quiz_url \<noteq> []" "fetch_quiz_page Q quiz_url = Inr page_content" "page_content \<noteq> []"
    "llm_reply Q = Inr reply"
    "execute_solution L (run_script Q) (process_llm_response L reply) JNull = Inl e"
  define question_data where "question_data =
     JObj [(asc ''submit_url'',
            (case parse_question_submit_url L (submit_match_of Q page_content) (all_urls_of Q page_content) of
               None \<Rightarrow> JNull | Some s \<Rightarrow> JStr s)),
           (asc ''file_urls'', JArr (map JStr (parse_question_file_urls L (soup_of Q page_content) quiz_url)))]"
  have b: "base_url_of L question_data = Inr (asc ''https://tds-llm-analysis.s-anand.net'')"
    unfolding question_data_def by (rule base_url_of_defaults(2)) (simp add: asc_def)
  have "execute_solution L (run_script Q) (process_llm_response L reply) question_data = Inl e"
    using execute_solution_context[OF b base_url_of_defaults(1)] h(5) by simp
  then show ?thesis
    using h by (simp add: solve_single_question_def analyze_quiz_def Let_def question_data_def)
qed

lemma chain_error_stops:
  "initial_url \<noteq> [] \<Longrightarrow> elapsed_us W 1 \<le> ts * 1000000
   \<Longrightarrow> solve_single_question L D (question W 1) initial_url = Inl e
   \<Longrightarrow> solve_quiz_chain (Suc fuel) L D W ts initial_url
        = Some (Inr \<lparr>ended = ErrorSolving e, question_count = 1, attempted = [initial_url]\<rparr>)"
  by (simp add: solve_quiz_chain_def)

lemma background_completed:
  "solve_quiz_chain fuel L D W ts quiz_url = Some (Inr r) \<Longrightarrow> active_tasks task_id = Some t
   \<Longrightarrow> solve_quiz_background fuel L D W ts now quiz_url task_id active_tasks
        = Some (active_tasks(task_id \<mapsto> t\<lparr>status := asc ''completed'', completed_at := Some now\<rparr>))"
  by (simp add: solve_quiz_background_def)

lemma chain_timeout_second:
  "initial_url \<noteq> [] \<Longrightarrow> elapsed_us W 1 \<le> ts * 1000000
   \<Longrightarrow> solve_single_question L D (question W 1) initial_url = Inr r
   \<Longrightarrow> resp_url r = Some next_url \<Longrightarrow> next_url \<noteq> []
   \<Longrightarrow> elapsed_us W 2 > ts * 1000000
   \<Longrightarrow> solve_quiz_chain (Suc (Suc fuel)) L D W ts initial_url
        = Some (Inr \<lparr>ended = TimeoutReached, question_count = 2, attempted = [initial_url]\<rparr>)"
  by (simp add: solve_quiz_chain_def numeral_2_eq_2)

text \<open>
  C2. The claim: when the sandboxed code exits with a non-zero status an execution
  failure is raised, the chain stops without attempting another question, and the task
  status recorded is \<open>failed\<close> with the error message, not \<open>completed\<close>. The failure is
  raised and the chain stops; but \<open>solve_quiz_chain\<close> catches the exception and returns
  normally, so \<open>solve_quiz_background\<close> takes the path after the call and records
  \<open>completed\<close>. Its handler, which records \<open>failed\<close> and the message, is never entered.
\<close>

theorem failed_execution_recorded_completed:
  "(any_keyword_in code_keywords (JStr code) = Inr True
      \<and> map_of p (asc ''solution_code'') = Some (JStr code)
      \<and> run code = Completed rc out err \<and> rc \<noteq> 0 \<and> base_url_of L ctx = Inr b
     \<longrightarrow> execute_solution L run (JObj p) ctx
           = Inl (RuntimeError (asc ''Subprocess execution failed: '' @ (if err \<noteq> [] then err else out))))
   \<and> (initial_url \<noteq> [] \<and> elapsed_us W 1 \<le> ts * 1000000
      \<and> fetch_quiz_page (question W 1) initial_url = Inr page_content \<and> page_content \<noteq> []
      \<and> llm_reply (question W 1) = Inr reply
      \<and> execute_solution L (run_script (question W 1)) (process_llm_response L reply) JNull = Inl e
      \<and> active_tasks task_id = Some t
     \<longrightarrow> solve_quiz_chain (Suc fuel) L D W ts initial_url
           = Some (Inr \<lparr>ended = ErrorSolving e, question_count = 1, attempted = [initial_url]\<rparr>)
         \<and> solve_quiz_background (Suc fuel) L D W ts now initial_url task_id active_tasks
           = Some (active_tasks(task_id \<mapsto> t\<lparr>status := asc ''completed'', completed_at := Some now\<rparr>)))
   \<and> solve_quiz_chain fuel2 L D W ts initial_url \<noteq> Some (Inl e2)"
proof -
  have a: "any_keyword_in code_keywords (JStr code) = Inr True
      \<and> map_of p (asc ''solution_code'') = Some (JStr code)
      \<and> run code = Completed rc out err \<and> rc \<noteq> 0 \<and> base_url_of L ctx = Inr b
     \<longrightarrow> execute_solution L run (JObj p) ctx
           = Inl (RuntimeError (asc ''Subprocess execution failed: '' @ (if err \<noteq> [] then err else out)))"
    using execute_solution_nonzero_exit[of code p run rc out err L ctx b] by blast
  have b: "initial_url \<noteq> [] \<and> elapsed_us W 1 \<le> ts * 1000000
      \<and> fetch_quiz_page (question W 1) initial_url = Inr page_content \<and> page_content \<noteq> []
      \<and> llm_reply (question W 1) = Inr reply
      \<and> execute_solution L (run_script (question W 1)) (process_llm_response L reply) JNull = Inl e
      \<and> active_tasks task_id = Some t
     \<longrightarrow> solve_quiz_chain (Suc fuel) L D W ts initial_url
           = Some (Inr \<lparr>ended = ErrorSolving e, question_count = 1, attempted = [initial_url]\<rparr>)
         \<and> solve_quiz_background (Suc fuel) L D W ts now initial_url task_id active_tasks
           = Some (active_tasks(task_id \<mapsto> t\<lparr>status := asc ''completed'', completed_at := Some now\<rparr>))"
  proof (intro impI, elim conjE)
    assume h: "initial_url \<noteq> []" "elapsed_us W 1 \<le> ts * 1000000"
      "fetch_quiz_page (question W 1) initial_url = Inr page_content" "page_content \<noteq> []"
      "llm_reply (question W 1) = Inr reply"
      "execute_solution L (run_script (question W 1)) (process_llm_response L reply) JNull = Inl e"
      "active_tasks task_id = Some t"
    have q: "solve_single_question L D (question W 1) initial_url = Inl e"
      by (rule solve_single_question_execution_error[OF h(1) h(3) h(4) h(5) h(6)])
    have c: "solve_quiz_chain (Suc fuel) L D W ts initial_url
           = Some (Inr \<lparr>ended = ErrorSolving e, question_count = 1, attempted = [initial_url]\<rparr>)"
      by (rule chain_error_stops[OF h(1) h(2) q])
    show "solve_quiz_chain (Suc fuel) L D W ts initial_url
           = Some (Inr \<lparr>ended = ErrorSolving e, question_count = 1, attempted = [initial_url]\<rparr>)
         \<and> solve_quiz_background (Suc fuel) L D W ts now initial_url task_id active_tasks
           = Some (active_tasks(task_id \<mapsto> t\<lparr>status := asc ''completed'', completed_at := Some now\<rparr>))"
      using c background_completed[of "Suc fuel" L D W ts initial_url _ active_tasks task_id t now]
        h(7) by simp
  qed
  have c: "solve_quiz_chain fuel2 L D W ts initial_url \<noteq> Some (Inl e2)"
    by (simp add: solve_quiz_chain_def chain_loop_never_raises)
  from a b c show ?thesis by blast
qed

text \<open>
  The chain of \<open>failing_world\<close> from \<open>https://quiz.example/q1\<close>, with the task
  \<open>quiz_1\<close> in the table.
\<close>

theorem failed_execution_recorded_completed_witness:
  "solve_quiz_chain 1 reply_lib two_page_decoders failing_world 170 (asc ''https://quiz.example/q1'')
     = Some (Inr \<lparr>ended = ErrorSolving (RuntimeError (asc ''Subprocess execution failed: boom'')),
                  question_count = 1, attempted = [asc ''https://quiz.example/q1'']\<rparr>)
   \<and> solve_quiz_background 1 reply_lib two_page_decoders failing_world 170 (asc ''t1'')
        (asc ''https://quiz.example/q1'') (asc ''quiz_1'') one_task
     = Some (one_task(asc ''quiz_1'' \<mapsto>
               \<lparr>task_url = asc ''https://quiz.example/q1'', started_at = asc ''t0'',
                status = asc ''completed'', task_error = None, completed_at = Some (asc ''t1''),
                failed_at = None\<rparr>))"
proof -
  let ?u = "asc ''https://quiz.example/q1''"
  let ?e = "RuntimeError (asc ''Subprocess execution failed: boom'')"
  let ?t = "\<lparr>task_url = asc ''https://quiz.example/q1'', started_at = asc ''t0'',
       status = asc ''processing'', task_error = None, completed_at = None, failed_at = None\<rparr>"
  have pre: "preclean code_reply = code_reply"
    by (simp add: preclean_def code_reply_def quoted_def strip_def strip_chars_def isspace_def
        asc_def startswith_def)
  have plan: "process_llm_response reply_lib code_reply
      = JObj [(asc ''solution_code'', JStr (asc ''import sys; sys.exit(1)''))]"
    by (simp add: process_llm_response_def parse_json_response_def pre reply_lib_def no_lib_def)
  have ex: "execute_solution reply_lib (run_script (question failing_world 1))
        (process_llm_response reply_lib code_reply) JNull = Inl ?e"
    unfolding plan
    by (simp add: execute_solution_def dict_get_def execute_python_solution_def base_url_of_def
        failing_world_def plain_page_def code_keywords_def asc_def startswith_def)
  have h: "?u \<noteq> [] \<and> elapsed_us failing_world 1 \<le> 170 * 1000000
      \<and> fetch_quiz_page (question failing_world 1) ?u = Inr (asc ''<html><body>Q</body></html>'')
      \<and> asc ''<html><body>Q</body></html>'' \<noteq> []
      \<and> llm_reply (question failing_world 1) = Inr code_reply
      \<and> execute_solution reply_lib (run_script (question failing_world 1))
           (process_llm_response reply_lib code_reply) JNull = Inl ?e
      \<and> one_task (asc ''quiz_1'') = Some ?t"
    using ex by (simp add: failing_world_def plain_page_def one_task_def asc_def)
  have "solve_quiz_chain (Suc 0) reply_lib two_page_decoders failing_world 170 ?u
           = Some (Inr \<lparr>ended = ErrorSolving ?e, question_count = 1, attempted = [?u]\<rparr>)
         \<and> solve_quiz_background (Suc 0) reply_lib two_page_decoders failing_world 170 (asc ''t1'') ?u
              (asc ''quiz_1'') one_task
           = Some (one_task(asc ''quiz_1'' \<mapsto> ?t\<lparr>status := asc ''completed'', completed_at := Some (asc ''t1'')\<rparr>))"
    using failed_execution_recorded_completed[where initial_url = ?u and W = failing_world
        and ts = 170 and page_content = "asc ''<html><body>Q</body></html>''" and reply = code_reply
        and L = reply_lib and e = ?e and active_tasks = one_task and task_id = "asc ''quiz_1''"
        and t = ?t and fuel = 0 and D = two_page_decoders and now = "asc ''t1''"] h
    by blast
  then show ?thesis by simp
qed

text \<open>
  C3. The claim: when the first question takes longer than the deadline, the chain ends
  timed out with a question count of 1, the deadline being tested only between
  questions. The deadline is tested only at the top of a pass, and the first question
  is solved to its end; but the counter is incremented before the test, so the chain
  ends with \<open>question_count = 2\<close> after one question attempted (and with
  \<open>question_count = 1\<close> when the deadline has passed before the first question, none
  being attempted).
\<close>

theorem chain_timeout_after_first_question:
  "(initial_url \<noteq> [] \<and> elapsed_us W 1 \<le> ts * 1000000
     \<and> solve_single_question L D (question W 1) initial_url = Inr r
     \<and> resp_url r = Some next_url \<and> next_url \<noteq> []
     \<and> elapsed_us W 2 > ts * 1000000
    \<longrightarrow> solve_quiz_chain (Suc (Suc fuel)) L D W ts initial_url
          = Some (Inr \<lparr>ended = TimeoutReached, question_count = 2, attempted = [initial_url]\<rparr>))
   \<and> (initial_url \<noteq> [] \<and> elapsed_us W 1 > ts * 1000000
    \<longrightarrow> solve_quiz_chain (Suc fuel) L D W ts initial_url
          = Some (Inr \<lparr>ended = TimeoutReached, question_count = 1, attempted = []\<rparr>))"
  using chain_timeout_second[of initial_url W ts L D r next_url fuel]
  by (simp add: solve_quiz_chain_def)

text \<open>The chain of \<open>slow_world\<close> from \<open>https://quiz.example/q1\<close>, with a deadline of 170 seconds.\<close>

theorem chain_timeout_after_first_question_witness:
  "solve_quiz_chain 2 reply_lib two_page_decoders slow_world 170 (asc ''https://quiz.example/q1'')
     = Some (Inr \<lparr>ended = TimeoutReached, question_count = 2,
                  attempted = [asc ''https://quiz.example/q1'']\<rparr>)"
proof -
  let ?u = "asc ''https://quiz.example/q1''"
  let ?r = "\<lparr>resp_correct = True, resp_url = Some (asc ''https://quiz.example/q2''), resp_reason = None\<rparr>"
  have pre: "preclean literal_reply = literal_reply"
    by (simp add: preclean_def literal_reply_def quoted_def strip_def strip_chars_def isspace_def
        asc_def startswith_def)
  have ne: "literal_reply \<noteq> code_reply"
    by (simp add: code_reply_def literal_reply_def quoted_def asc_def)
  have plan: "process_llm_response reply_lib literal_reply = JObj [(asc ''solution_code'', JStr (asc ''42''))]"
    by (simp add: process_llm_response_def parse_json_response_def pre reply_lib_def no_lib_def ne)
  have q: "solve_single_question reply_lib two_page_decoders (question slow_world 1) ?u = Inr ?r"
    by (simp add: solve_single_question_def analyze_quiz_def submit_answer_def submit_answer_url_def plan
        slow_world_def plain_page_def Let_def parse_question_file_urls_def discovered_urls_def
        unique_urls_def find_all_def execute_solution_def dict_get_def code_keywords_def
        coerce_answer_def asc_def startswith_def)
  have h: "?u \<noteq> [] \<and> elapsed_us slow_world 1 \<le> 170 * 1000000
     \<and> solve_single_question reply_lib two_page_decoders (question slow_world 1) ?u = Inr ?r
     \<and> resp_url ?r = Some (asc ''https://quiz.example/q2'') \<and> asc ''https://quiz.example/q2'' \<noteq> []
     \<and> elapsed_us slow_world 2 > 170 * 1000000"
    using q by (simp add: slow_world_def asc_def)
  have "solve_quiz_chain (Suc (Suc 0)) reply_lib two_page_decoders slow_world 170 ?u
         = Some (Inr \<lparr>ended = TimeoutReached, question_count = 2, attempted = [?u]\<rparr>)"
    using chain_timeout_after_first_question[where initial_url = ?u and W = slow_world and ts = 170
        and L = reply_lib and D = two_page_decoders and r = ?r
        and next_url = "asc ''https://quiz.example/q2''" and fuel = 0] h by blast
  then show ?thesis by (simp add: numeral_2_eq_2)
qed


end
